theory Spec2Isabelle
  imports Complex_Main "HOL-Library.Log_Nat" "HOL-Library.AList"
  "HOL-Library.Char_ord" "HOL-Library.List_Lexorder"
begin

section \<open>Numbers of the source: Decimal and binary64\<close>

text \<open>
  The source computes with two rounded number types. Every finite value of either type is
  a rational number, so a value is a \<^typ>\<open>rat\<close> and every arithmetic operation is the
  exact operation followed by the rounding of its type. Comparisons are exact in both.

  \<^item> \<^verbatim>\<open>decimal.Decimal\<close> (circuit breaker): the default context, 28 significant
    decimal digits, ROUND_HALF_EVEN. The exponent ceiling of the context (1e999999)
    is not modelled.
  \<^item> Python \<^verbatim>\<open>float\<close> and \<^verbatim>\<open>np.float64\<close>: IEEE 754 binary64, round to nearest,
    ties to even, with gradual underflow. Converting a Python integer that is too large
    raises OverflowError, the result \<open>None\<close> of \<open>f64\<close>; array arithmetic goes on
    with infinities and not-a-number, the type \<open>xfloat\<close> of the numeric kernel.
\<close>

datatype py_error =
  KeyError | ValueError | OverflowError | IndexError | AttributeError
  | DivisionByZero | InvalidOperation

definition bpow :: "nat \<Rightarrow> int \<Rightarrow> rat" where
  "bpow b e = (if 0 \<le> e then of_nat b ^ nat e else 1 / of_nat b ^ nat (- e))"

text \<open>\<open>ilog b x\<close> is the integer \<open>e\<close> with \<open>b ^ e \<le> x < b ^ (e + 1)\<close>, for \<open>0 < x\<close>.\<close>

definition ilog :: "nat \<Rightarrow> rat \<Rightarrow> int" where
  "ilog b x = (if 1 \<le> x then int (floorlog b (nat \<lfloor>x\<rfloor>)) - 1
     else - int (floorlog b (nat (\<lceil>1 / x\<rceil> - 1))))"

definition round_half_even :: "rat \<Rightarrow> int" where
  "round_half_even m = (let f = \<lfloor>m\<rfloor>; d = m - of_int f in
     if d < 1 / 2 then f else if 1 / 2 < d then f + 1 else if even f then f else f + 1)"

text \<open>
  Rounding to \<open>p\<close> significant digits in base \<open>b\<close>; the unit in the last place never
  drops below \<open>b ^ emin\<close> (gradual underflow).
\<close>

definition round_sig :: "nat \<Rightarrow> nat \<Rightarrow> int \<Rightarrow> rat \<Rightarrow> rat" where
  "round_sig b p emin x = (if x = 0 then 0 else
     let e = max (ilog b \<bar>x\<bar> - int p + 1) emin; u = bpow b e
     in of_int (round_half_even (x / u)) * u)"

subsection \<open>Decimal\<close>

definition dec :: "rat \<Rightarrow> rat" where
  "dec x = round_sig 10 28 (- 1000026) x"

definition dadd :: "rat \<Rightarrow> rat \<Rightarrow> rat" where "dadd x y = dec (x + y)"
definition dsub :: "rat \<Rightarrow> rat \<Rightarrow> rat" where "dsub x y = dec (x - y)"
definition dmul :: "rat \<Rightarrow> rat \<Rightarrow> rat" where "dmul x y = dec (x * y)"
definition dneg :: "rat \<Rightarrow> rat" where "dneg x = dec (- x)"
definition dabs :: "rat \<Rightarrow> rat" where "dabs x = dec \<bar>x\<bar>"

text \<open>Decimal division traps: \<open>x / 0\<close> raises DivisionByZero, \<open>0 / 0\<close> InvalidOperation.\<close>

definition ddiv :: "rat \<Rightarrow> rat \<Rightarrow> py_error + rat" where
  "ddiv x y = (if y = 0 then (if x = 0 then Inl InvalidOperation else Inl DivisionByZero)
     else Inr (dec (x / y)))"

subsection \<open>binary64\<close>

definition f64 :: "rat \<Rightarrow> rat option" where
  "f64 x = (let r = round_sig 2 53 (- 1074) x in if \<bar>r\<bar> < 2 ^ 1024 then Some r else None)"

definition fmul :: "rat \<Rightarrow> rat \<Rightarrow> rat option" where "fmul x y = f64 (x * y)"

text \<open>Python's \<^verbatim>\<open>int(x)\<close> on a finite float truncates toward zero.\<close>

definition py_int :: "rat \<Rightarrow> int" where
  "py_int x = (if 0 \<le> x then \<lfloor>x\<rfloor> else \<lceil>x\<rceil>)"

section \<open>Circuit breaker (mevbot/core/safety/circuit_breaker.py)\<close>

text \<open>
  A reading of \<^verbatim>\<open>time.time()\<close> is a rational number of seconds; differences of
  readings are taken exactly.
\<close>

type_synonym time = rat

record PositionLimit =
  max_size :: rat
  current_size :: rat

record GasLimit =
  max_price_gwei :: rat
  max_daily_spend :: rat
  current_daily_spend :: rat

record ProfitMetrics =
  min_profit_threshold :: rat
  max_daily_loss :: rat
  current_daily_pnl :: rat

text \<open>
  The reason passed to \<^verbatim>\<open>trigger_breaker\<close> is a formatted string; each constructor
  stands for one message of the source, with the numbers the message interpolates.
\<close>

datatype reason =
  PositionSizeLimitExceeded rat rat
  | GasPriceTooHigh rat rat
  | DailyGasSpendWouldBeExceeded
  | ProfitBelowMinimum rat rat
  | SlippageTooHigh rat rat
  | MaximumDailyLossExceeded
  | PositionLimitExceeded
  | DailyGasSpendExceeded
  | EmergencyShutdownActivated
  | OtherReason string

record breaker =
  enabled :: bool
  triggered :: bool
  trigger_reason :: "reason option"
  position_limit :: PositionLimit
  gas_limit :: GasLimit
  profit_metrics :: ProfitMetrics
  tx_window :: rat
  max_tx_per_window :: int
  tx_timestamps :: "time list"
  max_slippage :: rat
  last_health_check :: time
  last_metrics_reset :: time
  metrics_reset_interval :: rat
  health_check_interval :: rat

text \<open>
  The transaction dictionary: a key that is absent is \<open>None\<close>. Amounts are in wei.
\<close>

record tx =
  tx_value :: "int option"
  tx_gasPrice :: "int option"
  tx_gas :: "int option"
  tx_expected_profit :: "int option"
  tx_expected_price :: "int option"
  tx_actual_price :: "int option"
  tx_to :: "string option"

text \<open>
  \<^verbatim>\<open>Web3.from_wei\<close> (library): exact division by the unit, ValueError outside
  \<open>0 .. 2 ^ 256 - 1\<close>. The unit is given by its number of decimals (ether 18, gwei 9).
\<close>

definition from_wei :: "int \<Rightarrow> nat \<Rightarrow> py_error + rat" where
  "from_wei number decimals =
     (if number < 0 \<or> 2 ^ 256 - 1 < number then Inl ValueError
      else Inr (of_int number / 10 ^ decimals))"

text \<open>The clock readings of one call of \<^verbatim>\<open>validate_transaction\<close>, in program order.\<close>

record clock =
  t_health :: time
  t_rate :: time
  t_record :: time

definition trigger_breaker :: "reason \<Rightarrow> breaker \<Rightarrow> breaker" where
  "trigger_breaker r b = b\<lparr>triggered := True, trigger_reason := Some r\<rparr>"

definition reset_breaker :: "time \<Rightarrow> breaker \<Rightarrow> breaker" where
  "reset_breaker now b = b\<lparr>
     triggered := False,
     trigger_reason := None,
     tx_timestamps := [],
     position_limit := (position_limit b)\<lparr>current_size := 0\<rparr>,
     gas_limit := (gas_limit b)\<lparr>current_daily_spend := 0\<rparr>,
     profit_metrics := (profit_metrics b)\<lparr>current_daily_pnl := 0\<rparr>,
     last_metrics_reset := now\<rparr>"

definition emergency_shutdown :: "breaker \<Rightarrow> breaker" where
  "emergency_shutdown b = trigger_breaker EmergencyShutdownActivated b"

definition check_position_size :: "rat \<Rightarrow> breaker \<Rightarrow> bool \<times> breaker" where
  "check_position_size amount b =
     (let total = dadd (current_size (position_limit b)) amount in
      if max_size (position_limit b) < total
      then (False, trigger_breaker
              (PositionSizeLimitExceeded total (max_size (position_limit b))) b)
      else (True, b))"

definition gas_cost :: "rat \<Rightarrow> rat \<Rightarrow> rat" where
  "gas_cost gas_price gas = dec (dmul gas_price gas / 1000000000)"

definition check_gas_limits :: "rat \<Rightarrow> rat \<Rightarrow> breaker \<Rightarrow> bool \<times> breaker" where
  "check_gas_limits gas_price gas b =
     (if max_price_gwei (gas_limit b) < gas_price
      then (False, trigger_breaker
              (GasPriceTooHigh gas_price (max_price_gwei (gas_limit b))) b)
      else
        let spend = dadd (current_daily_spend (gas_limit b)) (gas_cost gas_price gas) in
        if max_daily_spend (gas_limit b) < spend
        then (False, trigger_breaker DailyGasSpendWouldBeExceeded b)
        else (True, b\<lparr>gas_limit := (gas_limit b)\<lparr>current_daily_spend := spend\<rparr>\<rparr>))"

definition check_tx_rate :: "time \<Rightarrow> breaker \<Rightarrow> bool \<times> breaker" where
  "check_tx_rate current_time b =
     (let b' = b\<lparr>tx_timestamps :=
                 filter (\<lambda>t. current_time - t \<le> tx_window b) (tx_timestamps b)\<rparr>
      in if max_tx_per_window b' \<le> int (length (tx_timestamps b'))
         then (False, b') else (True, b'))"

definition check_profit_threshold :: "rat \<Rightarrow> breaker \<Rightarrow> bool \<times> breaker" where
  "check_profit_threshold expected_profit b =
     (if expected_profit < min_profit_threshold (profit_metrics b)
      then (False, trigger_breaker
              (ProfitBelowMinimum expected_profit (min_profit_threshold (profit_metrics b))) b)
      else (True, b))"

definition check_slippage :: "rat \<Rightarrow> rat \<Rightarrow> breaker \<Rightarrow> py_error + bool \<times> breaker" where
  "check_slippage expected_price actual_price b =
     (case ddiv (dabs (dsub actual_price expected_price)) expected_price of
        Inl e \<Rightarrow> Inl e
      | Inr slippage \<Rightarrow>
          if max_slippage b < slippage
          then Inr (False, trigger_breaker (SlippageTooHigh slippage (max_slippage b)) b)
          else Inr (True, b))"

definition record_profit_loss :: "rat \<Rightarrow> breaker \<Rightarrow> breaker" where
  "record_profit_loss amount b =
     (let b' = b\<lparr>profit_metrics := (profit_metrics b)\<lparr>current_daily_pnl :=
                 dadd (current_daily_pnl (profit_metrics b)) amount\<rparr>\<rparr>
      in if current_daily_pnl (profit_metrics b') \<le> dneg (max_daily_loss (profit_metrics b'))
         then trigger_breaker MaximumDailyLossExceeded b' else b')"

definition check_system_health :: "time \<Rightarrow> breaker \<Rightarrow> breaker" where
  "check_system_health current_time b =
     (if metrics_reset_interval b \<le> current_time - last_metrics_reset b
      then b\<lparr>position_limit := (position_limit b)\<lparr>current_size := 0\<rparr>,
             gas_limit := (gas_limit b)\<lparr>current_daily_spend := 0\<rparr>,
             profit_metrics := (profit_metrics b)\<lparr>current_daily_pnl := 0\<rparr>,
             tx_timestamps := [],
             last_metrics_reset := current_time\<rparr>
      else if health_check_interval b \<le> current_time - last_health_check b
      then
        let b1 = (if max_size (position_limit b) < current_size (position_limit b)
                  then trigger_breaker PositionLimitExceeded b else b);
            b2 = (if current_daily_pnl (profit_metrics b1)
                       \<le> dneg (max_daily_loss (profit_metrics b1))
                  then trigger_breaker MaximumDailyLossExceeded b1 else b1);
            b3 = (if max_daily_spend (gas_limit b2) < current_daily_spend (gas_limit b2)
                  then trigger_breaker DailyGasSpendExceeded b2 else b2)
        in b3\<lparr>last_health_check := current_time\<rparr>
      else b)"

text \<open>
  The four values \<^verbatim>\<open>validate_transaction\<close> reads first: \<^verbatim>\<open>tx['value']\<close> raises
  KeyError when absent; the gas price is read only when the key is present; gas defaults
  to 21000 and the expected profit to 0.
\<close>

definition tx_details :: "tx \<Rightarrow> py_error + rat \<times> rat \<times> rat \<times> rat" where
  "tx_details t =
     (case tx_value t of
        None \<Rightarrow> Inl KeyError
      | Some v \<Rightarrow>
         (case from_wei v 18 of
            Inl e \<Rightarrow> Inl e
          | Inr amount \<Rightarrow>
             (case (case tx_gasPrice t of None \<Rightarrow> Inr 0 | Some g \<Rightarrow> from_wei g 9) of
                Inl e \<Rightarrow> Inl e
              | Inr gas_price \<Rightarrow>
                 (case from_wei (case tx_expected_profit t of None \<Rightarrow> 0 | Some p \<Rightarrow> p) 18 of
                    Inl e \<Rightarrow> Inl e
                  | Inr expected_profit \<Rightarrow>
                      Inr (amount, gas_price,
                           of_int (case tx_gas t of None \<Rightarrow> 21000 | Some g \<Rightarrow> g),
                           expected_profit)))))"

text \<open>The slippage check runs only when both prices are in the transaction.\<close>

definition slippage_step :: "tx \<Rightarrow> breaker \<Rightarrow> py_error + bool \<times> breaker" where
  "slippage_step t b =
     (case tx_expected_price t of
        None \<Rightarrow> Inr (True, b)
      | Some pe \<Rightarrow>
         (case tx_actual_price t of
            None \<Rightarrow> Inr (True, b)
          | Some pa \<Rightarrow>
             (case from_wei pe 18 of
                Inl e \<Rightarrow> Inl e
              | Inr expected_price \<Rightarrow>
                 (case from_wei pa 18 of
                    Inl e \<Rightarrow> Inl e
                  | Inr actual_price \<Rightarrow> check_slippage expected_price actual_price b))))"

text \<open>
  \<^verbatim>\<open>validate_transaction\<close>: the result and the breaker the call leaves behind. An
  exception anywhere inside the \<^verbatim>\<open>try\<close> is caught and gives \<open>False\<close>, with the
  mutations made before it kept.
\<close>

definition validate_transaction :: "clock \<Rightarrow> tx \<Rightarrow> breaker \<Rightarrow> bool \<times> breaker" where
  "validate_transaction ck t b =
     (if \<not> enabled b then (False, b) else
      let b1 = check_system_health (t_health ck) b in
      if triggered b1 then (False, b1) else
      (case tx_details t of
         Inl e \<Rightarrow> (False, b1)
       | Inr (amount, gas_price, gas, expected_profit) \<Rightarrow>
          (let (ok2, b2) = check_position_size amount b1 in
           if \<not> ok2 then (False, b2) else
           let (ok3, b3) = check_gas_limits gas_price gas b2 in
           if \<not> ok3 then (False, b3) else
           let (ok4, b4) = check_tx_rate (t_rate ck) b3 in
           if \<not> ok4 then (False, b4) else
           let (ok5, b5) = check_profit_threshold expected_profit b4 in
           if \<not> ok5 then (False, b5) else
           (case slippage_step t b5 of
              Inl e \<Rightarrow> (False, b5)
            | Inr (ok6, b6) \<Rightarrow>
               (if \<not> ok6 then (False, b6) else
                (True, b6\<lparr>
                   tx_timestamps := tx_timestamps b6 @ [t_record ck],
                   position_limit := (position_limit b6)\<lparr>current_size :=
                     dadd (current_size (position_limit b6)) amount\<rparr>\<rparr>))))))"

text \<open>
  Every operation of the breaker other than \<^verbatim>\<open>reset_breaker\<close>, and a run of such
  operations that collects the results of the validations in order.
\<close>

datatype call =
  Validate clock tx
  | RecordProfitLoss rat
  | TriggerBreaker reason
  | EmergencyShutdown
  | CheckSystemHealth time

fun run_calls :: "call list \<Rightarrow> breaker \<Rightarrow> bool list \<times> breaker" where
  "run_calls [] b = ([], b)"
| "run_calls (Validate ck t # cs) b =
     (let (r, b') = validate_transaction ck t b; (rs, b'') = run_calls cs b'
      in (r # rs, b''))"
| "run_calls (RecordProfitLoss amount # cs) b = run_calls cs (record_profit_loss amount b)"
| "run_calls (TriggerBreaker r # cs) b = run_calls cs (trigger_breaker r b)"
| "run_calls (EmergencyShutdown # cs) b = run_calls cs (emergency_shutdown b)"
| "run_calls (CheckSystemHealth now # cs) b = run_calls cs (check_system_health now b)"

text \<open>
  The breaker that \<^verbatim>\<open>__init__\<close> builds at time \<open>now\<close> from the configuration of the
  repository's test fixture (tests/core/safety/test_circuit_breaker.py).
\<close>

definition fixture_breaker :: "time \<Rightarrow> breaker" where
  "fixture_breaker now = \<lparr>
     enabled = True,
     triggered = False,
     trigger_reason = None,
     position_limit = \<lparr>max_size = 100, current_size = 0\<rparr>,
     gas_limit = \<lparr>max_price_gwei = 500, max_daily_spend = 10, current_daily_spend = 0\<rparr>,
     profit_metrics =
       \<lparr>min_profit_threshold = 1 / 10, max_daily_loss = 5, current_daily_pnl = 0\<rparr>,
     tx_window = 1,
     max_tx_per_window = 2,
     tx_timestamps = [],
     max_slippage = 1 / 100,
     last_health_check = now,
     last_metrics_reset = now,
     metrics_reset_interval = 1,
     health_check_interval = 1 / 10\<rparr>"

text \<open>A transaction of 1 ether that expects a profit of 0.2 ether, as the tests use.\<close>

definition fixture_tx :: tx where
  "fixture_tx = \<lparr>
     tx_value = Some 1000000000000000000,
     tx_gasPrice = None,
     tx_gas = None,
     tx_expected_profit = Some 200000000000000000,
     tx_expected_price = None,
     tx_actual_price = None,
     tx_to = None\<rparr>"

text \<open>A run of operations that contains no reset.\<close>

definition c1_calls :: "call list" where
  "c1_calls = [Validate \<lparr>t_health = 0, t_rate = 0, t_record = 0\<rparr> fixture_tx,
         RecordProfitLoss 1,
         Validate \<lparr>t_health = 2, t_rate = 2, t_record = 2\<rparr> fixture_tx]"

text \<open>Concrete inputs: one clock reading for a whole call, and the transactions and
  breaker states of the repository's tests.\<close>

definition clock_at :: "time \<Rightarrow> clock" where
  "clock_at now = \<lparr>t_health = now, t_rate = now, t_record = now\<rparr>"

definition gas_tx :: tx where
  "gas_tx = fixture_tx\<lparr>tx_gasPrice := Some 400000000000, tx_gas := Some 21000\<rparr>"

definition pricey_tx :: tx where
  "pricey_tx = fixture_tx\<lparr>tx_gasPrice := Some 600000000000, tx_gas := Some 21000\<rparr>"

text \<open>The fixture breaker after two accepted transactions of 1 ether at time 0.\<close>

definition busy_breaker :: breaker where
  "busy_breaker = (fixture_breaker 0)\<lparr>
     tx_timestamps := [0, 0],
     position_limit := \<lparr>max_size = 100, current_size = 2\<rparr>\<rparr>"

text \<open>The condition under which \<^verbatim>\<open>_check_tx_rate\<close> lets a call through.\<close>

definition rate_ok :: "clock \<Rightarrow> breaker \<Rightarrow> bool" where
  "rate_ok ck b \<longleftrightarrow>
     int (length (filter (\<lambda>x. t_rate ck - x \<le> tx_window b) (tx_timestamps b)))
       < max_tx_per_window b"

section \<open>Safety coordinator (mevbot/core/safety/coordinator.py)\<close>

text \<open>
  The options of the coordinator's configuration that the modelled methods read; an
  option that is absent from the dictionary is \<open>None\<close>.
\<close>

record safety_config =
  contract_whitelist :: "string list option"

text \<open>
  \<^verbatim>\<open>_validate_contract_interaction\<close>: the check is skipped when the transaction has no
  \<^verbatim>\<open>to\<close> key or a falsy one (\<open>None\<close>, the empty string); the whitelist defaults to the
  empty list.
\<close>

definition whitelist_of :: "safety_config \<Rightarrow> string list" where
  "whitelist_of config = (case contract_whitelist config of None \<Rightarrow> [] | Some w \<Rightarrow> w)"

definition validate_contract_interaction :: "safety_config \<Rightarrow> tx \<Rightarrow> bool" where
  "validate_contract_interaction config t =
     (case tx_to t of
        None \<Rightarrow> True
      | Some contract_address \<Rightarrow>
          if contract_address = [] then True
          else
            let whitelist = whitelist_of config
            in if contract_address \<notin> set whitelist then False else True)"

datatype EmergencyLevel = INFO | WARNING | CRITICAL | FATAL

record SafetyMetrics =
  total_transactions :: int
  failed_transactions :: int
  emergency_events :: int
  circuit_breaks :: int
  last_incident_time :: "time option"
  total_prevented_loss :: rat
  current_risk_level :: string

text \<open>
  The coordinator's metrics and the \<^verbatim>\<open>shutdown_triggered\<close> flag of its emergency
  manager.
\<close>

record coordinator =
  metrics :: SafetyMetrics
  shutdown_triggered :: bool

definition new_coordinator :: coordinator where
  "new_coordinator = \<lparr>
     metrics = \<lparr>total_transactions = 0, failed_transactions = 0, emergency_events = 0,
       circuit_breaks = 0, last_incident_time = None, total_prevented_loss = 0,
       current_risk_level = ''LOW''\<rparr>,
     shutdown_triggered = False\<rparr>"

definition level_weights :: "EmergencyLevel \<Rightarrow> int" where
  "level_weights l = (case l of INFO \<Rightarrow> 1 | WARNING \<Rightarrow> 2 | CRITICAL \<Rightarrow> 3 | FATAL \<Rightarrow> 4)"

definition update_risk_level :: "EmergencyLevel \<Rightarrow> SafetyMetrics \<Rightarrow> SafetyMetrics" where
  "update_risk_level incident_level m =
     (let weight = level_weights incident_level in
      if 3 \<le> weight then m\<lparr>current_risk_level := ''HIGH''\<rparr>
      else if weight = 2 then m\<lparr>current_risk_level := ''MEDIUM''\<rparr>
      else m\<lparr>current_risk_level := ''LOW''\<rparr>)"

text \<open>
  \<^verbatim>\<open>EmergencyManager.trigger_shutdown\<close>: a second shutdown returns at once; the first
  one sets the flag and, at level FATAL, ends the process with \<^verbatim>\<open>os._exit(1)\<close>,
  which is the result \<open>None\<close>. The shutdown tasks themselves touch no metric.
\<close>

definition trigger_shutdown :: "EmergencyLevel \<Rightarrow> coordinator \<Rightarrow> coordinator option" where
  "trigger_shutdown level c =
     (if shutdown_triggered c then Some c
      else if level = FATAL then None
      else Some (c\<lparr>shutdown_triggered := True\<rparr>))"

definition record_incident :: "time \<Rightarrow> EmergencyLevel \<Rightarrow> coordinator \<Rightarrow> coordinator option" where
  "record_incident now level c =
     (let m = (metrics c)\<lparr>emergency_events := emergency_events (metrics c) + 1,
                            last_incident_time := Some now\<rparr>;
          c' = c\<lparr>metrics := update_risk_level level m\<rparr>
      in if level = CRITICAL \<or> level = FATAL then trigger_shutdown level c' else Some c')"

text \<open>Recording a history of incidents in order, for as long as the process lives.\<close>

fun record_history :: "(time \<times> EmergencyLevel) list \<Rightarrow> coordinator \<Rightarrow> coordinator option" where
  "record_history [] c = Some c"
| "record_history ((now, level) # hs) c =
     (case record_incident now level c of None \<Rightarrow> None | Some c' \<Rightarrow> record_history hs c')"

text \<open>The risk level of claim C6, from the spec's words: the highest severity seen.\<close>

definition risk_level_spec :: "EmergencyLevel list \<Rightarrow> string" where
  "risk_level_spec ls =
     (if CRITICAL \<in> set ls \<or> FATAL \<in> set ls then ''HIGH''
      else if WARNING \<in> set ls then ''MEDIUM'' else ''LOW'')"

definition level_of :: "EmergencyLevel \<Rightarrow> string" where
  "level_of l = (case l of INFO \<Rightarrow> ''LOW'' | WARNING \<Rightarrow> ''MEDIUM''
     | CRITICAL \<Rightarrow> ''HIGH'' | FATAL \<Rightarrow> ''HIGH'')"

section \<open>Gas optimisation (mevbot/core/utils/math.py)\<close>

text \<open>\<^verbatim>\<open>np.argmax\<close> on a non-empty vector: the first index of a maximal entry.\<close>

fun argmax :: "rat list \<Rightarrow> nat" where
  "argmax [] = 0"
| "argmax [x] = 0"
| "argmax (x # y # ys) =
     (let j = argmax (y # ys) in if x < (y # ys) ! j then Suc j else 0)"

text \<open>
  The function \<^verbatim>\<open>optimize_gas_vectorized\<close> of this module, on vectors of finite floats; the
  suffix tells it from the method of the same name of the just-in-time strategy. \<^verbatim>\<open>np.argmax\<close> raises
  ValueError on an empty vector, and indexing the gas prices beyond their length raises
  IndexError.
\<close>

definition optimize_gas_vectorized_math :: "rat list \<Rightarrow> rat list \<Rightarrow> py_error + int" where
  "optimize_gas_vectorized_math gas_prices success_rates =
     (if \<exists>g \<in> set gas_prices. g < 0 then Inl ValueError
      else if \<exists>r \<in> set success_rates. r < 0 \<or> 1 < r then Inl ValueError
      else if success_rates = [] then Inl ValueError
      else
        let optimal_index = argmax success_rates in
        if optimal_index < length gas_prices
        then Inr (py_int (gas_prices ! optimal_index))
        else Inl IndexError)"

text \<open>The risk level a coordinator shows after a history, if the process is still alive.\<close>

definition risk_after :: "(time \<times> EmergencyLevel) list \<Rightarrow> coordinator \<Rightarrow> string option" where
  "risk_after hs c = map_option (current_risk_level \<circ> metrics) (record_history hs c)"

section \<open>Flash-loan planner (mevbot/core/flash_loan.py)\<close>


text \<open>A float literal of the source denotes the binary64 number nearest to it.\<close>

definition float_lit :: "rat \<Rightarrow> rat" where
  "float_lit x = round_sig 2 53 (- 1074) x"

text \<open>
  \<^verbatim>\<open>amount * c\<close> for an \<^verbatim>\<open>int\<close> and a \<^verbatim>\<open>float\<close>: the integer is converted to
  binary64 first, which raises OverflowError (here \<open>None\<close>) when it is too large, and
  the product is rounded.
\<close>

definition int_times_float :: "int \<Rightarrow> rat \<Rightarrow> rat option" where
  "int_times_float n c = (case f64 (of_int n) of None \<Rightarrow> None | Some a \<Rightarrow> fmul a c)"












section \<open>Pending-transaction store (mevbot/core/mempool.py)\<close>

record Transaction =
  t_hash :: string
  t_from_address :: string
  t_to_address :: "string option"
  t_value :: int
  t_gas_price :: int
  t_gas_limit :: int
  t_nonce :: int
  t_data :: string
  t_timestamp :: time

text \<open>
  What \<^verbatim>\<open>w3.eth.get_transaction\<close> gives: an exception, a falsy result, or a dictionary
  whose keys may be absent.
\<close>

record raw_tx =
  raw_from :: "string option"
  raw_to :: "string option"
  raw_value :: "int option"
  raw_gasPrice :: "int option"
  raw_gas :: "int option"
  raw_nonce :: "int option"
  raw_input :: "string option"

datatype fetched = Raises | Nothing | Fetched raw_tx

text \<open>
  The manager. \<^verbatim>\<open>pending_txs\<close> is a dictionary whose iteration order matters to the
  clean-up, so it is an association list in insertion order; the two indices map a
  protocol or a token to a set of hashes.
\<close>

record mempool =
  pending_txs :: "(string \<times> Transaction) list"
  enable_custom_indexing :: bool
  index_by_protocol :: "string \<rightharpoonup> string set"
  index_by_token :: "string \<rightharpoonup> string set"
  tx_cleanup_threshold :: "rat option"

definition new_mempool :: "rat option \<Rightarrow> mempool" where
  "new_mempool threshold = \<lparr>
     pending_txs = [],
     enable_custom_indexing = True,
     index_by_protocol = Map.empty,
     index_by_token = Map.empty,
     tx_cleanup_threshold = threshold\<rparr>"

text \<open>The two identification methods are placeholders of the source: they return None.\<close>

definition identify_protocol :: "string \<Rightarrow> string option" where
  "identify_protocol bytes = None"

definition identify_token :: "string option \<Rightarrow> string option" where
  "identify_token address = None"

definition is_relevant_transaction :: "Transaction \<Rightarrow> bool" where
  "is_relevant_transaction transaction = False"

text \<open>\<^verbatim>\<open>index.setdefault(key, set()).add(h)\<close>.\<close>

definition index_add :: "string \<Rightarrow> string \<Rightarrow> (string \<rightharpoonup> string set) \<Rightarrow> (string \<rightharpoonup> string set)" where
  "index_add key h index =
     index(key \<mapsto> insert h (case index key of None \<Rightarrow> {} | Some hs \<Rightarrow> hs))"

definition update_indexes :: "Transaction \<Rightarrow> mempool \<Rightarrow> mempool" where
  "update_indexes transaction mp =
     (let mp1 = (case identify_protocol (t_data transaction) of
                   None \<Rightarrow> mp
                 | Some protocol \<Rightarrow>
                     if protocol = [] then mp
                     else mp\<lparr>index_by_protocol :=
                            index_add protocol (t_hash transaction) (index_by_protocol mp)\<rparr>)
      in (case identify_token (t_to_address transaction) of
            None \<Rightarrow> mp1
          | Some token \<Rightarrow>
              if token = [] then mp1
              else mp1\<lparr>index_by_token :=
                     index_add token (t_hash transaction) (index_by_token mp1)\<rparr>))"

text \<open>
  \<^verbatim>\<open>_process_transaction\<close>: every exception is caught inside; \<^verbatim>\<open>tx['from']\<close> raises
  KeyError before anything is stored.
\<close>

definition process_transaction :: "string \<Rightarrow> fetched \<Rightarrow> time \<Rightarrow> mempool \<Rightarrow> mempool" where
  "process_transaction h f now mp =
     (case f of
        Raises \<Rightarrow> mp
      | Nothing \<Rightarrow> mp
      | Fetched raw \<Rightarrow>
         (case raw_from raw of
            None \<Rightarrow> mp
          | Some sender \<Rightarrow>
              let transaction = \<lparr>
                    t_hash = h,
                    t_from_address = sender,
                    t_to_address = raw_to raw,
                    t_value = (case raw_value raw of None \<Rightarrow> 0 | Some v \<Rightarrow> v),
                    t_gas_price = (case raw_gasPrice raw of None \<Rightarrow> 0 | Some v \<Rightarrow> v),
                    t_gas_limit = (case raw_gas raw of None \<Rightarrow> 0 | Some v \<Rightarrow> v),
                    t_nonce = (case raw_nonce raw of None \<Rightarrow> 0 | Some v \<Rightarrow> v),
                    t_data = (case raw_input raw of None \<Rightarrow> [] | Some v \<Rightarrow> v),
                    t_timestamp = now\<rparr>;
                  mp1 = mp\<lparr>pending_txs := AList.update h transaction (pending_txs mp)\<rparr>
              in if enable_custom_indexing mp1 then update_indexes transaction mp1 else mp1))"

text \<open>
  \<^verbatim>\<open>_remove_transaction\<close>. The method \<^verbatim>\<open>_remove_from_indexes\<close> that it calls is defined
  nowhere in the repository, so with indexing enabled the call raises AttributeError,
  after the entry has left the main table.
\<close>

definition remove_transaction :: "string \<Rightarrow> mempool \<Rightarrow> py_error option \<times> mempool" where
  "remove_transaction h mp =
     (if map_of (pending_txs mp) h \<noteq> None then
        let mp1 = mp\<lparr>pending_txs := AList.delete h (pending_txs mp)\<rparr>
        in if enable_custom_indexing mp1 then (Some AttributeError, mp1) else (None, mp1)
      else (None, mp))"

fun remove_each :: "string list \<Rightarrow> mempool \<Rightarrow> py_error option \<times> mempool" where
  "remove_each [] mp = (None, mp)"
| "remove_each (h # hs) mp =
     (case remove_transaction h mp of
        (Some e, mp') \<Rightarrow> (Some e, mp')
      | (None, mp') \<Rightarrow> remove_each hs mp')"

definition cleanup_old_transactions :: "time \<Rightarrow> mempool \<Rightarrow> py_error option \<times> mempool" where
  "cleanup_old_transactions current_time mp =
     (let old_threshold =
            current_time - (case tx_cleanup_threshold mp of None \<Rightarrow> 60 | Some c \<Rightarrow> c);
          old_txs = map fst
            (filter (\<lambda>entry. t_timestamp (snd entry) < old_threshold) (pending_txs mp))
      in remove_each old_txs mp)"

text \<open>
  The operations of the store. An operation either completes or raises; the monitoring
  loop of \<^verbatim>\<open>start_monitoring\<close> catches the exception, logs it and goes on with the
  state left behind, so a run of operations gives the outcome of each and the last state.
\<close>

datatype store_op =
  Process string fetched time
  | Cleanup time
  | Remove string

fun apply_op :: "store_op \<Rightarrow> mempool \<Rightarrow> py_error option \<times> mempool" where
  "apply_op (Process h f now) mp = (None, process_transaction h f now mp)"
| "apply_op (Cleanup now) mp = cleanup_old_transactions now mp"
| "apply_op (Remove h) mp = remove_transaction h mp"

fun run_ops :: "store_op list \<Rightarrow> mempool \<Rightarrow> py_error option list \<times> mempool" where
  "run_ops [] mp = ([], mp)"
| "run_ops (operation # ops) mp =
     (case apply_op operation mp of
        (e, mp') \<Rightarrow> (case run_ops ops mp' of (es, mp'') \<Rightarrow> (e # es, mp'')))"

definition sample_raw :: raw_tx where
  "sample_raw = \<lparr>raw_from = Some ''0xa1'', raw_to = Some ''0xb2'', raw_value = Some 5,
     raw_gasPrice = Some 1, raw_gas = Some 21000, raw_nonce = Some 0,
     raw_input = Some []\<rparr>"

text \<open>The transaction stored for \<^const>\<open>sample_raw\<close> under a hash at a time.\<close>

definition sample_tx :: "string \<Rightarrow> time \<Rightarrow> Transaction" where
  "sample_tx h now = \<lparr>t_hash = h, t_from_address = ''0xa1'', t_to_address = Some ''0xb2'',
     t_value = 5, t_gas_price = 1, t_gas_limit = 21000, t_nonce = 0, t_data = [],
     t_timestamp = now\<rparr>"

text \<open>Both indices hold no key at all.\<close>

definition indexes_empty :: "mempool \<Rightarrow> bool" where
  "indexes_empty mp \<longleftrightarrow> index_by_protocol mp = Map.empty \<and> index_by_token mp = Map.empty"

text \<open>
  Two transactions seen at the times 0 and 10, then two clean-ups at the time 100 with
  the default threshold of 60 seconds.
\<close>

definition sample_ops :: "store_op list" where
  "sample_ops = [Process ''0x01'' (Fetched sample_raw) 0,
                 Process ''0x02'' (Fetched sample_raw) 10,
                 Cleanup 100,
                 Cleanup 100]"

section \<open>Numeric kernel (mevbot/core/simd.py)\<close>

text \<open>
  An element of a float64 array: a finite value, an infinity or not-a-number. Signed
  zeros are not told apart; a zero divisor counts as positive zero, which is what a sum
  of two finite numbers of opposite sign gives.
\<close>

datatype xfloat = Fin rat | PInf | NInf | NaN

definition xround :: "rat \<Rightarrow> xfloat" where
  "xround x = (let r = round_sig 2 53 (- 1074) x in
     if \<bar>r\<bar> < 2 ^ 1024 then Fin r else if 0 < r then PInf else NInf)"

fun xneg :: "xfloat \<Rightarrow> xfloat" where
  "xneg (Fin x) = Fin (- x)"
| "xneg PInf = NInf"
| "xneg NInf = PInf"
| "xneg NaN = NaN"

fun xadd :: "xfloat \<Rightarrow> xfloat \<Rightarrow> xfloat" where
  "xadd (Fin x) (Fin y) = xround (x + y)"
| "xadd NaN y = NaN"
| "xadd x NaN = NaN"
| "xadd PInf NInf = NaN"
| "xadd NInf PInf = NaN"
| "xadd PInf y = PInf"
| "xadd NInf y = NInf"
| "xadd (Fin x) y = y"

definition xsub :: "xfloat \<Rightarrow> xfloat \<Rightarrow> xfloat" where
  "xsub x y = xadd x (xneg y)"

fun xsign :: "xfloat \<Rightarrow> int" where
  "xsign (Fin x) = sgn \<lfloor>sgn x\<rfloor>"
| "xsign PInf = 1"
| "xsign NInf = - 1"
| "xsign NaN = 0"

fun xmul :: "xfloat \<Rightarrow> xfloat \<Rightarrow> xfloat" where
  "xmul (Fin x) (Fin y) = xround (x * y)"
| "xmul NaN y = NaN"
| "xmul x NaN = NaN"
| "xmul x y =
     (if xsign x * xsign y = 0 then NaN
      else if 0 < xsign x * xsign y then PInf else NInf)"

fun xdiv :: "xfloat \<Rightarrow> xfloat \<Rightarrow> xfloat" where
  "xdiv (Fin x) (Fin y) =
     (if y = 0 then (if x = 0 then NaN else if 0 < x then PInf else NInf)
      else xround (x / y))"
| "xdiv NaN y = NaN"
| "xdiv x NaN = NaN"
| "xdiv (Fin x) y = Fin 0"
| "xdiv x (Fin y) = (if 0 \<le> y then x else xneg x)"
| "xdiv x y = NaN"

text \<open>
  \<^verbatim>\<open>np.array(xs, dtype=np.float64)\<close> on a list of finite Python numbers: each is rounded
  to binary64; an integer beyond the range raises OverflowError.
\<close>

fun np_array :: "rat list \<Rightarrow> py_error + xfloat list" where
  "np_array [] = Inr []"
| "np_array (x # xs) =
     (case f64 x of
        None \<Rightarrow> Inl OverflowError
      | Some v \<Rightarrow> (case np_array xs of Inl e \<Rightarrow> Inl e | Inr vs \<Rightarrow> Inr (Fin v # vs)))"

text \<open>
  An elementwise operation on two one-dimensional arrays, with numpy's broadcasting: equal
  lengths, or one of the arrays of length 1; any other pair of shapes raises ValueError.
\<close>

definition broadcast2 ::
  "(xfloat \<Rightarrow> xfloat \<Rightarrow> xfloat) \<Rightarrow> xfloat list \<Rightarrow> xfloat list \<Rightarrow> py_error + xfloat list" where
  "broadcast2 f xs ys =
     (if length xs = length ys then Inr (map2 f xs ys)
      else if length xs = 1 then Inr (map (f (hd xs)) ys)
      else if length ys = 1 then Inr (map (\<lambda>x. f x (hd ys)) xs)
      else Inl ValueError)"

text \<open>\<^verbatim>\<open>amounts / (amounts + liquidities)\<close> on arrays.\<close>

definition price_impact_arrays :: "xfloat list \<Rightarrow> xfloat list \<Rightarrow> py_error + xfloat list" where
  "price_impact_arrays amounts liquidities =
     (case broadcast2 xadd amounts liquidities of
        Inl e \<Rightarrow> Inl e
      | Inr denominators \<Rightarrow> broadcast2 xdiv amounts denominators)"

definition batch_price_impact :: "rat list \<Rightarrow> rat list \<Rightarrow> py_error + xfloat list" where
  "batch_price_impact amounts liquidities =
     (case np_array amounts of
        Inl e \<Rightarrow> Inl e
      | Inr a \<Rightarrow>
         (case np_array liquidities of
            Inl e \<Rightarrow> Inl e
          | Inr l \<Rightarrow> price_impact_arrays a l))"

text \<open>
  \<^verbatim>\<open>batch_sandwich_optimization\<close>; the inner call of \<^verbatim>\<open>batch_price_impact\<close> receives
  arrays, which \<^verbatim>\<open>np.array\<close> leaves as they are.
\<close>

definition batch_sandwich_optimization ::
  "rat list \<Rightarrow> rat list \<Rightarrow> rat list \<Rightarrow> py_error + xfloat list \<times> xfloat list" where
  "batch_sandwich_optimization target_amounts pool_liquidities gas_prices =
     (case np_array target_amounts of
        Inl e \<Rightarrow> Inl e
      | Inr targets \<Rightarrow>
         (case np_array pool_liquidities of
            Inl e \<Rightarrow> Inl e
          | Inr liquidities \<Rightarrow>
             (case np_array gas_prices of
                Inl e \<Rightarrow> Inl e
              | Inr gas \<Rightarrow>
                 (let optimal_amounts = map (\<lambda>t. xmul t (Fin (float_lit (1 / 10)))) targets in
                  case price_impact_arrays optimal_amounts liquidities of
                    Inl e \<Rightarrow> Inl e
                  | Inr impact \<Rightarrow>
                     (case broadcast2 xmul targets impact of
                        Inl e \<Rightarrow> Inl e
                      | Inr gross \<Rightarrow>
                         (case broadcast2 xsub gross (map (\<lambda>g. xmul g (Fin 2)) gas) of
                            Inl e \<Rightarrow> Inl e
                          | Inr profits \<Rightarrow> Inr (optimal_amounts, profits)))))))"

section \<open>Sandwich strategy (mevbot/strategies/sandwich.py)\<close>

text \<open>The two dictionaries that \<^verbatim>\<open>analyze_opportunity\<close> reads; an absent key is \<open>None\<close>.\<close>

record target_tx =
  tt_hash :: "string option"
  tt_value :: "int option"

record pool_info =
  pi_token :: "string option"
  pi_address :: "string option"

text \<open>A swap transaction as \<^verbatim>\<open>_create_swap_tx\<close> builds it, and an entry of a bundle.\<close>

record swap_tx =
  sw_to :: string
  sw_value :: int
  sw_gas :: int
  sw_gasPrice :: int


record SandwichParams =
  target_tx_hash :: string
  token :: string
  pool :: string
  front_amount :: int
  back_amount :: int
  expected_profit :: xfloat
  front_tx :: "swap_tx option"
  back_tx :: "swap_tx option"


text \<open>\<^verbatim>\<open>float(n)\<close> of an integer raises OverflowError beyond the range: \<open>None\<close>.\<close>

definition py_float :: "int \<Rightarrow> rat option" where
  "py_float n = f64 (of_int n)"

text \<open>\<^verbatim>\<open>int(x)\<close> of an array element raises on an infinity and on not-a-number.\<close>

fun x_int :: "xfloat \<Rightarrow> py_error + int" where
  "x_int (Fin x) = Inr (py_int x)"
| "x_int PInf = Inl OverflowError"
| "x_int NInf = Inl OverflowError"
| "x_int NaN = Inl ValueError"

text \<open>The comparison \<^verbatim>\<open>x <= 0\<close>; it is false for not-a-number.\<close>

fun x_le_zero :: "xfloat \<Rightarrow> bool" where
  "x_le_zero (Fin x) = (x \<le> 0)"
| "x_le_zero NInf = True"
| "x_le_zero PInf = False"
| "x_le_zero NaN = False"

text \<open>\<^verbatim>\<open>_get_pool_liquidity\<close> returns the constant \<^verbatim>\<open>int(1e20)\<close>.\<close>

definition get_pool_liquidity :: "string \<Rightarrow> int" where
  "get_pool_liquidity pool_address = 100000000000000000000"

text \<open>
  \<^verbatim>\<open>analyze_opportunity\<close>. The relay manager is a collaborator handed to the strategy;
  its method \<^verbatim>\<open>get_gas_price\<close> is not in the repository, so the result of the call is
  a parameter: \<open>None\<close> when the call raises, otherwise the price. Every exception inside
  the method (a missing key, an index out of range, a conversion that fails) is caught
  and gives the result None.
\<close>

definition analyze_opportunity ::
  "target_tx \<Rightarrow> pool_info \<Rightarrow> int option \<Rightarrow> SandwichParams option" where
  "analyze_opportunity tt pinfo gas_price_call =
     (case pi_token pinfo of None \<Rightarrow> None | Some tok \<Rightarrow>
     (case pi_address pinfo of None \<Rightarrow> None | Some pool_address \<Rightarrow>
     (let target_amount = (case tt_value tt of None \<Rightarrow> 0 | Some v \<Rightarrow> v);
          liquidity = get_pool_liquidity pool_address
      in
     (case gas_price_call of None \<Rightarrow> None | Some gas_price \<Rightarrow>
      if target_amount = 0 \<or> liquidity = 0 then None else
     (case py_float target_amount of None \<Rightarrow> None | Some ft \<Rightarrow>
     (case py_float liquidity of None \<Rightarrow> None | Some fl \<Rightarrow>
     (case py_float gas_price of None \<Rightarrow> None | Some fg \<Rightarrow>
     (case batch_sandwich_optimization [ft] [fl] [fg] of
        Inl e \<Rightarrow> None
      | Inr (amounts, profits) \<Rightarrow>
     (case amounts of [] \<Rightarrow> None | amount0 # amounts' \<Rightarrow>
     (case profits of [] \<Rightarrow> None | profit0 # profits' \<Rightarrow>
     (case x_int amount0 of Inl e \<Rightarrow> None | Inr front \<Rightarrow>
      if front = 0 \<or> x_le_zero profit0 then None else
     (case int_times_float front (float_lit (102 / 100)) of None \<Rightarrow> None | Some product \<Rightarrow>
     (case tt_hash tt of None \<Rightarrow> None | Some h \<Rightarrow>
        Some \<lparr>target_tx_hash = h, token = tok, pool = pool_address,
              front_amount = front, back_amount = py_int product,
              expected_profit = profit0,
              front_tx = None, back_tx = None\<rparr>)))))))))))))"




text \<open>The opportunity of the repository's test: a victim of 1 ether, gas at 50 gwei.\<close>

definition test_target :: target_tx where
  "test_target = \<lparr>tt_hash = Some ''0x123'', tt_value = Some 1000000000000000000\<rparr>"

definition test_pool :: pool_info where
  "test_pool = \<lparr>pi_token = Some ''0x01'', pi_address = Some ''0x02''\<rparr>"

definition test_params :: SandwichParams where
  "test_params = \<lparr>target_tx_hash = ''0x123'', token = ''0x01'', pool = ''0x02'',
     front_amount = 100000000000000000, back_amount = 102000000000000000,
     expected_profit = Fin 998900999000999, front_tx = None, back_tx = None\<rparr>"





section \<open>Gas estimate of the just-in-time strategy (mevbot/strategies/optimized_jit.py)\<close>




section \<open>Properties\<close>

subsection \<open>Evaluation of the rounding functions on numerals\<close>

lemma floor_rat_numeral_div [simp]:
  "\<lfloor>(numeral a :: rat) / numeral b\<rfloor> = numeral a div numeral b"
  by (metis floor_divide_of_int_eq of_int_numeral)

lemma ceiling_rat_numeral_div [simp]:
  "\<lceil>(numeral a :: rat) / numeral b\<rceil> = - ((- numeral a) div numeral b)"
  by (metis ceiling_def floor_divide_of_int_eq minus_divide_left of_int_minus of_int_numeral)

lemmas round_eval =
  round_sig_def ilog_def bpow_def round_half_even_def compute_floorlog Let_def

subsection \<open>The triggered state is kept by every operation but the reset\<close>

lemma trigger_breaker_triggered: "triggered (trigger_breaker r b)"
  by (simp add: trigger_breaker_def)

lemma check_system_health_triggered:
  "triggered b \<Longrightarrow> triggered (check_system_health now b)"
  by (simp add: check_system_health_def trigger_breaker_def Let_def)

lemma record_profit_loss_triggered:
  "triggered b \<Longrightarrow> triggered (record_profit_loss amount b)"
  by (simp add: record_profit_loss_def trigger_breaker_def Let_def)

lemma validate_transaction_triggered:
  assumes "triggered b"
  shows "fst (validate_transaction ck t b) = False"
    and "triggered (snd (validate_transaction ck t b))"
  using assms check_system_health_triggered [of b "t_health ck"]
  by (simp_all add: validate_transaction_def Let_def)

lemma run_calls_triggered:
  "triggered b \<Longrightarrow>
     True \<notin> set (fst (run_calls cs b)) \<and> triggered (snd (run_calls cs b))"
proof (induction cs arbitrary: b)
  case Nil
  then show ?case by simp
next
  case (Cons c cs)
  show ?case
  proof (cases c)
    case (Validate ck t)
    obtain r b' where v: "validate_transaction ck t b = (r, b')"
      by (cases "validate_transaction ck t b")
    from validate_transaction_triggered [OF Cons.prems, of ck t] v
    have "\<not> r" "triggered b'" by simp_all
    with Cons.IH [of b'] Validate v show ?thesis
      by (simp add: split_def Let_def)
  next
    case (RecordProfitLoss a)
    with Cons.IH [OF record_profit_loss_triggered [OF Cons.prems]] show ?thesis by simp
  next
    case (TriggerBreaker r)
    with Cons.IH [OF trigger_breaker_triggered] show ?thesis by simp
  next
    case EmergencyShutdown
    with Cons.IH [OF trigger_breaker_triggered] show ?thesis
      by (simp add: emergency_shutdown_def)
  next
    case (CheckSystemHealth now)
    with Cons.IH [OF check_system_health_triggered [OF Cons.prems]] show ?thesis by simp
  qed
qed

lemma reset_breaker_clears:
  "\<not> triggered (reset_breaker now b) \<and> trigger_reason (reset_breaker now b) = None"
  by (simp add: reset_breaker_def)

text \<open>
  Claim C1. From a triggered breaker, no call of \<^verbatim>\<open>validate_transaction\<close> in any
  run of operations other than \<^verbatim>\<open>reset_breaker\<close> returns True, and the breaker
  stays triggered; \<^verbatim>\<open>reset_breaker\<close> then clears the triggered flag and the reason.
\<close>

theorem triggered_rejects_until_reset:
  "triggered b \<Longrightarrow>
     True \<notin> set (fst (run_calls cs b))
     \<and> triggered (snd (run_calls cs b))
     \<and> \<not> triggered (reset_breaker now (snd (run_calls cs b)))
     \<and> trigger_reason (reset_breaker now (snd (run_calls cs b))) = None"
  using run_calls_triggered [of b cs] reset_breaker_clears by simp

theorem triggered_rejects_until_reset_witness:
  "triggered (emergency_shutdown (fixture_breaker 0))
   \<and> True \<notin> set (fst (run_calls c1_calls (emergency_shutdown (fixture_breaker 0))))
   \<and> \<not> triggered (reset_breaker 3 (snd (run_calls c1_calls
        (emergency_shutdown (fixture_breaker 0)))))"
proof -
  have t: "triggered (emergency_shutdown (fixture_breaker 0))"
    by (simp add: emergency_shutdown_def trigger_breaker_def)
  from triggered_rejects_until_reset [OF t, of c1_calls 3] t
  show ?thesis by blast
qed

subsection \<open>Concrete runs of the breaker\<close>

lemmas breaker_checks =
  check_position_size_def check_gas_limits_def check_tx_rate_def
  check_profit_threshold_def check_slippage_def slippage_step_def trigger_breaker_def

lemma dec_0: "dec 0 = 0"
  by (simp add: dec_def round_sig_def)

lemma dec_small:
  "dec 1 = 1" "dec 2 = 2" "dec 3 = 3" "dec 5 = 5" "dec (- 5) = - 5"
  "dec 8400000 = 8400000" "dec (21 / 2500) = 21 / 2500"
  by (simp_all add: dec_def round_eval)

lemma gas_cost_free: "gas_cost 0 21000 = 0"
  by (simp add: gas_cost_def dmul_def dec_0)

lemma gas_cost_400: "gas_cost 400 21000 = 21 / 2500"
  by (simp add: gas_cost_def dmul_def dec_small)

lemma fixture_details: "tx_details fixture_tx = Inr (1, 0, 21000, 1 / 5)"
  by (simp add: tx_details_def fixture_tx_def from_wei_def)

lemma gas_details: "tx_details gas_tx = Inr (1, 400, 21000, 1 / 5)"
  by (simp add: tx_details_def fixture_tx_def gas_tx_def from_wei_def)

lemma pricey_details: "tx_details pricey_tx = Inr (1, 600, 21000, 1 / 5)"
  by (simp add: tx_details_def fixture_tx_def pricey_tx_def from_wei_def)

lemma fixture_slippage_step: "slippage_step fixture_tx b = Inr (True, b)"
  by (simp add: slippage_step_def fixture_tx_def)

lemma gas_slippage_step: "slippage_step gas_tx b = Inr (True, b)"
  by (simp add: slippage_step_def fixture_tx_def gas_tx_def)

lemmas breaker_run =
  validate_transaction_def check_system_health_def check_position_size_def
  check_gas_limits_def check_tx_rate_def check_profit_threshold_def trigger_breaker_def
  clock_at_def Let_def dadd_def dec_0 dec_small gas_cost_free gas_cost_400

lemma first_accepted:
  "validate_transaction (clock_at 0) fixture_tx (fixture_breaker 0) =
   (True, (fixture_breaker 0)\<lparr>tx_timestamps := [0],
     position_limit := \<lparr>max_size = 100, current_size = 1\<rparr>\<rparr>)"
  by (simp add: breaker_run fixture_details fixture_slippage_step fixture_breaker_def)

lemma second_accepted:
  "validate_transaction (clock_at 0) fixture_tx ((fixture_breaker 0)\<lparr>tx_timestamps := [0],
     position_limit := \<lparr>max_size = 100, current_size = 1\<rparr>\<rparr>) = (True, busy_breaker)"
  by (simp add: breaker_run fixture_details fixture_slippage_step fixture_breaker_def
      busy_breaker_def)

lemma third_rejected:
  "validate_transaction (clock_at 0) fixture_tx busy_breaker = (False, busy_breaker)"
  by (simp add: breaker_run fixture_details fixture_slippage_step fixture_breaker_def
      busy_breaker_def)

lemma third_rejected_gas:
  "validate_transaction (clock_at 0) gas_tx busy_breaker =
   (False, busy_breaker\<lparr>gas_limit :=
      \<lparr>max_price_gwei = 500, max_daily_spend = 10, current_daily_spend = 21 / 2500\<rparr>\<rparr>)"
  by (simp add: breaker_run gas_details gas_slippage_step fixture_breaker_def busy_breaker_def)

lemma fourth_accepted: "fst (validate_transaction (clock_at 2) fixture_tx busy_breaker)"
  by (simp add: breaker_run fixture_details fixture_slippage_step fixture_breaker_def
      busy_breaker_def)

subsection \<open>Which checks latch\<close>

lemma validate_latches:
  assumes "enabled b"
    and "\<not> triggered (check_system_health (t_health ck) b)"
    and "tx_details t = Inr (amount, gas_price, gas, profit)"
    and "b1 = check_system_health (t_health ck) b"
    and "max_size (position_limit b1) < dadd (current_size (position_limit b1)) amount
       \<or> max_price_gwei (gas_limit b1) < gas_price
       \<or> max_daily_spend (gas_limit b1)
            < dadd (current_daily_spend (gas_limit b1)) (gas_cost gas_price gas)
       \<or> (rate_ok ck b1 \<and> profit < min_profit_threshold (profit_metrics b1))
       \<or> (rate_ok ck b1 \<and> tx_expected_price t = Some pe \<and> tx_actual_price t = Some pa
            \<and> from_wei pe 18 = Inr e \<and> from_wei pa 18 = Inr a
            \<and> ddiv (dabs (dsub a e)) e = Inr s \<and> max_slippage b1 < s)"
  shows "\<not> fst (validate_transaction ck t b)
       \<and> triggered (snd (validate_transaction ck t b))
       \<and> trigger_reason (snd (validate_transaction ck t b)) \<noteq> None"
  using assms
  by (auto simp: validate_transaction_def breaker_checks rate_ok_def Let_def
      split: sum.splits prod.splits if_splits option.splits)

lemma record_profit_loss_latches:
  "dadd (current_daily_pnl (profit_metrics b)) x \<le> dneg (max_daily_loss (profit_metrics b))
   \<Longrightarrow> triggered (record_profit_loss x b) \<and> trigger_reason (record_profit_loss x b) \<noteq> None"
  by (simp add: record_profit_loss_def trigger_breaker_def Let_def)

text \<open>
  Claim C2, as stated, fails for the tx-rate check. The fixture breaker accepts two
  transactions at time 0 and rejects the third because the window is full, yet it is not
  triggered and has no reason; with no reset, a transaction at time 2 is accepted.
\<close>

theorem rate_limit_rejects_without_trigger:
  "run_calls [Validate (clock_at 0) fixture_tx, Validate (clock_at 0) fixture_tx,
              Validate (clock_at 0) fixture_tx] (fixture_breaker 0)
     = ([True, True, False], busy_breaker)
   \<and> \<not> fst (check_tx_rate 0 busy_breaker)
   \<and> \<not> triggered busy_breaker
   \<and> trigger_reason busy_breaker = None
   \<and> fst (validate_transaction (clock_at 2) fixture_tx busy_breaker)"
proof -
  have "run_calls [Validate (clock_at 0) fixture_tx, Validate (clock_at 0) fixture_tx,
              Validate (clock_at 0) fixture_tx] (fixture_breaker 0)
     = ([True, True, False], busy_breaker)"
    by (simp add: first_accepted second_accepted third_rejected)
  moreover have "\<not> fst (check_tx_rate 0 busy_breaker)"
    by (simp add: check_tx_rate_def busy_breaker_def fixture_breaker_def)
  moreover have "\<not> triggered busy_breaker" "trigger_reason busy_breaker = None"
    by (simp_all add: busy_breaker_def fixture_breaker_def)
  ultimately show ?thesis using fourth_accepted by simp
qed

text \<open>
  Claim C2, amended. In a call of \<^verbatim>\<open>validate_transaction\<close> on an enabled breaker that
  is not triggered after its health check: if the position-size, gas-price or daily-gas
  condition holds, or the tx-rate check passes and the min-profit or the slippage
  condition holds, then the call returns False, the breaker is triggered with a reason,
  and no later validation returns True in any run of operations without a reset. The
  daily-loss breaker triggers, in the same way, in \<^verbatim>\<open>record_profit_loss\<close>. The tx-rate
  check itself rejects without triggering.
\<close>

theorem latching_breakers_trigger:
  fixes b b' :: breaker and ck :: clock
  defines "b1 \<equiv> check_system_health (t_health ck) b"
  assumes "enabled b"
    and "\<not> triggered b1"
    and "tx_details t = Inr (amount, gas_price, gas, profit)"
    and "max_size (position_limit b1) < dadd (current_size (position_limit b1)) amount
       \<or> max_price_gwei (gas_limit b1) < gas_price
       \<or> max_daily_spend (gas_limit b1)
            < dadd (current_daily_spend (gas_limit b1)) (gas_cost gas_price gas)
       \<or> (rate_ok ck b1 \<and> profit < min_profit_threshold (profit_metrics b1))
       \<or> (rate_ok ck b1 \<and> tx_expected_price t = Some pe \<and> tx_actual_price t = Some pa
            \<and> from_wei pe 18 = Inr e \<and> from_wei pa 18 = Inr a
            \<and> ddiv (dabs (dsub a e)) e = Inr s \<and> max_slippage b1 < s)"
  shows "(\<not> fst (validate_transaction ck t b)
          \<and> triggered (snd (validate_transaction ck t b))
          \<and> trigger_reason (snd (validate_transaction ck t b)) \<noteq> None
          \<and> True \<notin> set (fst (run_calls cs (snd (validate_transaction ck t b)))))
       \<and> (dadd (current_daily_pnl (profit_metrics b')) x
              \<le> dneg (max_daily_loss (profit_metrics b'))
            \<longrightarrow> triggered (record_profit_loss x b')
              \<and> trigger_reason (record_profit_loss x b') \<noteq> None
              \<and> True \<notin> set (fst (run_calls cs (record_profit_loss x b'))))"
proof -
  have v: "\<not> fst (validate_transaction ck t b)
       \<and> triggered (snd (validate_transaction ck t b))
       \<and> trigger_reason (snd (validate_transaction ck t b)) \<noteq> None"
    using assms validate_latches [of b ck t amount gas_price gas profit b1 pe pa e a s]
    by simp
  then have "True \<notin> set (fst (run_calls cs (snd (validate_transaction ck t b))))"
    using run_calls_triggered by blast
  with v show ?thesis
    using record_profit_loss_latches [of b' x] run_calls_triggered by blast
qed

theorem latching_breakers_trigger_witness:
  "enabled (fixture_breaker 0)
   \<and> \<not> triggered (check_system_health (t_health (clock_at 0)) (fixture_breaker 0))
   \<and> tx_details pricey_tx = Inr (1, 600, 21000, 1 / 5)
   \<and> max_price_gwei (gas_limit (check_system_health (t_health (clock_at 0))
        (fixture_breaker 0))) < 600
   \<and> \<not> fst (validate_transaction (clock_at 0) pricey_tx (fixture_breaker 0))
   \<and> triggered (snd (validate_transaction (clock_at 0) pricey_tx (fixture_breaker 0)))
   \<and> trigger_reason (snd (validate_transaction (clock_at 0) pricey_tx (fixture_breaker 0)))
        \<noteq> None
   \<and> True \<notin> set (fst (run_calls c1_calls
        (snd (validate_transaction (clock_at 0) pricey_tx (fixture_breaker 0)))))
   \<and> dadd (current_daily_pnl (profit_metrics (fixture_breaker 0))) (- 5)
        \<le> dneg (max_daily_loss (profit_metrics (fixture_breaker 0)))
   \<and> triggered (record_profit_loss (- 5) (fixture_breaker 0))"
proof -
  have h1: "enabled (fixture_breaker 0)"
    by (simp add: fixture_breaker_def)
  have h2: "\<not> triggered (check_system_health (t_health (clock_at 0)) (fixture_breaker 0))"
    by (simp add: check_system_health_def clock_at_def fixture_breaker_def)
  have h3: "max_price_gwei (gas_limit (check_system_health (t_health (clock_at 0))
        (fixture_breaker 0))) < 600"
    by (simp add: check_system_health_def clock_at_def fixture_breaker_def)
  have h4: "dadd (current_daily_pnl (profit_metrics (fixture_breaker 0))) (- 5)
        \<le> dneg (max_daily_loss (profit_metrics (fixture_breaker 0)))"
    by (simp add: fixture_breaker_def dadd_def dneg_def dec_small)
  from latching_breakers_trigger [OF h1 h2 pricey_details, of 0 0 0 0 0 c1_calls
      "fixture_breaker 0" "- 5"] h3 h4
  show ?thesis using h1 h2 pricey_details by blast
qed

text \<open>
  Claim C10. When the position-size and the gas-limit checks of a call pass, the daily gas
  spend after the call is the spend before it plus the gas cost of the transaction,
  whatever the call returns; the position size grows by the transaction's amount exactly
  when the call returns True.
\<close>

theorem gas_spend_kept_on_rejection:
  fixes b :: breaker and ck :: clock
  defines "b1 \<equiv> check_system_health (t_health ck) b"
  assumes "enabled b"
    and "\<not> triggered b1"
    and "tx_details t = Inr (amount, gas_price, gas, profit)"
    and "fst (check_position_size amount b1)"
    and "fst (check_gas_limits gas_price gas b1)"
  shows "current_daily_spend (gas_limit (snd (validate_transaction ck t b))) =
           dadd (current_daily_spend (gas_limit b1)) (gas_cost gas_price gas)
         \<and> current_size (position_limit (snd (validate_transaction ck t b))) =
           (if fst (validate_transaction ck t b)
            then dadd (current_size (position_limit b1)) amount
            else current_size (position_limit b1))"
  using assms
  by (auto simp: validate_transaction_def breaker_checks Let_def
      split: sum.splits prod.splits if_splits option.splits)

theorem gas_spend_kept_on_rejection_witness:
  "enabled busy_breaker
   \<and> \<not> triggered (check_system_health (t_health (clock_at 0)) busy_breaker)
   \<and> tx_details gas_tx = Inr (1, 400, 21000, 1 / 5)
   \<and> fst (check_position_size 1 (check_system_health (t_health (clock_at 0)) busy_breaker))
   \<and> fst (check_gas_limits 400 21000
        (check_system_health (t_health (clock_at 0)) busy_breaker))
   \<and> \<not> fst (validate_transaction (clock_at 0) gas_tx busy_breaker)
   \<and> current_daily_spend (gas_limit busy_breaker) = 0
   \<and> current_daily_spend (gas_limit (snd (validate_transaction (clock_at 0) gas_tx
        busy_breaker))) = 21 / 2500
   \<and> current_size (position_limit (snd (validate_transaction (clock_at 0) gas_tx
        busy_breaker))) = 2"
proof -
  have hb: "check_system_health (t_health (clock_at 0)) busy_breaker = busy_breaker"
    by (simp add: check_system_health_def clock_at_def busy_breaker_def fixture_breaker_def)
  have h1: "enabled busy_breaker"
    by (simp add: busy_breaker_def fixture_breaker_def)
  have h2: "\<not> triggered (check_system_health (t_health (clock_at 0)) busy_breaker)"
    by (simp add: hb) (simp add: busy_breaker_def fixture_breaker_def)
  have h4: "fst (check_position_size 1
      (check_system_health (t_health (clock_at 0)) busy_breaker))"
    by (simp add: hb) (simp add: breaker_run busy_breaker_def fixture_breaker_def)
  have h5: "fst (check_gas_limits 400 21000
      (check_system_health (t_health (clock_at 0)) busy_breaker))"
    by (simp add: hb) (simp add: breaker_run busy_breaker_def fixture_breaker_def)
  have r: "\<not> fst (validate_transaction (clock_at 0) gas_tx busy_breaker)"
    by (simp add: third_rejected_gas)
  have s0: "current_daily_spend (gas_limit busy_breaker) = 0"
    "current_size (position_limit busy_breaker) = 2"
    by (simp_all add: busy_breaker_def fixture_breaker_def)
  from gas_spend_kept_on_rejection [OF h1 h2 gas_details h4 h5] r
  have "current_daily_spend (gas_limit (snd (validate_transaction (clock_at 0) gas_tx
        busy_breaker))) = 21 / 2500"
    and "current_size (position_limit (snd (validate_transaction (clock_at 0) gas_tx
        busy_breaker))) = 2"
    by (simp_all add: hb s0 dadd_def gas_cost_400 dec_small)
  with h1 h2 gas_details h4 h5 r s0 show ?thesis by blast
qed

subsection \<open>Contract whitelist\<close>

text \<open>
  Claim C3, as stated, fails: with an empty whitelist the check rejects a transaction
  because of its \<^verbatim>\<open>to\<close> address, and accepts the same transaction without one.
\<close>

theorem empty_whitelist_rejects_address:
  "\<not> validate_contract_interaction \<lparr>contract_whitelist = Some []\<rparr>
        (fixture_tx\<lparr>tx_to := Some ''0xffffffffffffffffffffffffffffffffffffffff''\<rparr>)
   \<and> validate_contract_interaction \<lparr>contract_whitelist = Some []\<rparr> fixture_tx"
  by (simp add: validate_contract_interaction_def whitelist_of_def fixture_tx_def)

text \<open>
  Claim C3, amended. For every whitelist, empty or not, the check accepts a transaction
  exactly when its \<^verbatim>\<open>to\<close> address is absent, empty or in the list; so an empty (or
  unconfigured) whitelist accepts exactly the transactions without a \<^verbatim>\<open>to\<close> address.
\<close>

theorem whitelist_check_exact:
  "(validate_contract_interaction config t \<longleftrightarrow>
      (\<forall>a. tx_to t = Some a \<longrightarrow> a = [] \<or> a \<in> set (whitelist_of config)))
   \<and> (whitelist_of config = [] \<longrightarrow>
      (validate_contract_interaction config t \<longleftrightarrow> tx_to t = None \<or> tx_to t = Some []))"
  by (auto simp: validate_contract_interaction_def Let_def split: option.splits)

theorem whitelist_check_exact_witness:
  "whitelist_of \<lparr>contract_whitelist = None\<rparr> = []
   \<and> tx_to (fixture_tx\<lparr>tx_to := Some ''0xaa''\<rparr>) = Some ''0xaa''
   \<and> \<not> validate_contract_interaction \<lparr>contract_whitelist = None\<rparr>
         (fixture_tx\<lparr>tx_to := Some ''0xaa''\<rparr>)
   \<and> validate_contract_interaction \<lparr>contract_whitelist = Some [''0xaa'']\<rparr>
         (fixture_tx\<lparr>tx_to := Some ''0xaa''\<rparr>)"
  using whitelist_check_exact [of "\<lparr>contract_whitelist = None\<rparr>"
      "fixture_tx\<lparr>tx_to := Some ''0xaa''\<rparr>"]
    whitelist_check_exact [of "\<lparr>contract_whitelist = Some [''0xaa'']\<rparr>"
      "fixture_tx\<lparr>tx_to := Some ''0xaa''\<rparr>"]
  by (simp add: whitelist_of_def)

subsection \<open>Risk level\<close>

lemma record_incident_level:
  "record_incident now level c = Some c' \<Longrightarrow> current_risk_level (metrics c') = level_of level"
  by (cases level)
    (auto simp: record_incident_def update_risk_level_def level_weights_def level_of_def
      trigger_shutdown_def Let_def split: if_splits)

lemma record_history_append:
  "record_history (hs @ hs') c =
     (case record_history hs c of None \<Rightarrow> None | Some c' \<Rightarrow> record_history hs' c')"
  by (induction hs arbitrary: c) (auto split: option.splits)

lemmas coordinator_run =
  risk_after_def record_incident_def update_risk_level_def level_weights_def
  trigger_shutdown_def new_coordinator_def Let_def

text \<open>
  Claim C6, as stated, fails: after a CRITICAL incident followed by an INFO incident the
  coordinator shows LOW, where the claim requires HIGH.
\<close>

theorem risk_level_drops_after_critical:
  "risk_after [(0, CRITICAL), (1, INFO)] new_coordinator = Some ''LOW''
   \<and> risk_level_spec [CRITICAL, INFO] = ''HIGH''"
  by (simp add: coordinator_run risk_level_spec_def)

text \<open>
  Claim C6, amended. After every non-empty history of recorded incidents that the process
  survives, the risk level is that of the last incident alone: HIGH for CRITICAL or FATAL,
  MEDIUM for WARNING, LOW for INFO.
\<close>

theorem risk_level_is_last_incident:
  "record_history (hs @ [(now, level)]) c = Some c' \<Longrightarrow>
     risk_after (hs @ [(now, level)]) c = Some (level_of level)"
  by (auto simp: risk_after_def record_history_append record_incident_level
      split: option.splits)

theorem risk_level_is_last_incident_witness:
  "record_history ([(0, CRITICAL)] @ [(1, INFO)]) new_coordinator
     = Some (new_coordinator\<lparr>
         metrics := (metrics new_coordinator)\<lparr>emergency_events := 2,
           last_incident_time := Some 1, current_risk_level := ''LOW''\<rparr>,
         shutdown_triggered := True\<rparr>)
   \<and> risk_after ([(0, CRITICAL)] @ [(1, INFO)]) new_coordinator = Some (level_of INFO)
   \<and> level_of INFO = ''LOW''"
proof -
  have h: "record_history ([(0, CRITICAL)] @ [(1, INFO)]) new_coordinator
     = Some (new_coordinator\<lparr>
         metrics := (metrics new_coordinator)\<lparr>emergency_events := 2,
           last_incident_time := Some 1, current_risk_level := ''LOW''\<rparr>,
         shutdown_triggered := True\<rparr>)"
    by (simp add: coordinator_run)
  from risk_level_is_last_incident [OF h] h show ?thesis
    by (simp add: level_of_def)
qed

subsection \<open>Gas optimisation of core/utils/math.py\<close>

lemma argmax_less: "xs \<noteq> [] \<Longrightarrow> argmax xs < length xs"
  by (induction xs rule: argmax.induct) (auto simp: Let_def)

lemma argmax_max: "j < length xs \<Longrightarrow> xs ! j \<le> xs ! argmax xs"
proof (induction xs arbitrary: j rule: argmax.induct)
  case (3 x y ys)
  then show ?case
    by (cases j) (auto simp: Let_def not_less intro: order_trans less_imp_le)
qed simp_all

lemma argmax_first: "j < argmax xs \<Longrightarrow> xs ! j < xs ! argmax xs"
proof (induction xs arbitrary: j rule: argmax.induct)
  case (3 x y ys)
  then show ?case
    by (cases j) (auto simp: Let_def split: if_splits)
qed simp_all

text \<open>
  The function of core/utils/math.py weighs nothing: for equal-length non-empty vectors
  of non-negative gas prices and of success rates in \<open>[0, 1]\<close> it returns the gas price,
  truncated to an integer, at the first index whose success rate is maximal.
\<close>

lemma gas_price_at_best_rate:
  assumes "length gas_prices = length success_rates"
    and "success_rates \<noteq> []"
    and "\<forall>g \<in> set gas_prices. 0 \<le> g"
    and "\<forall>r \<in> set success_rates. 0 \<le> r \<and> r \<le> 1"
  shows "\<exists>i < length success_rates.
           optimize_gas_vectorized_math gas_prices success_rates = Inr (py_int (gas_prices ! i))
           \<and> (\<forall>j < length success_rates. success_rates ! j \<le> success_rates ! i)
           \<and> (\<forall>j < i. success_rates ! j < success_rates ! i)"
proof -
  let ?i = "argmax success_rates"
  have "?i < length success_rates" using assms(2) by (rule argmax_less)
  moreover have "optimize_gas_vectorized_math gas_prices success_rates
      = Inr (py_int (gas_prices ! ?i))"
    using assms calculation by (auto simp: optimize_gas_vectorized_math_def Let_def not_less)
  ultimately show ?thesis
    using argmax_max argmax_first by blast
qed

subsection \<open>Provider selection\<close>


lemmas f64_eval = f64_def fmul_def float_lit_def round_eval










subsection \<open>Pending-transaction store\<close>

lemma update_indexes_id: "update_indexes transaction mp = mp"
  by (simp add: update_indexes_def identify_protocol_def identify_token_def)

text \<open>No operation ever puts a hash into an index.\<close>

lemma process_transaction_indexes:
  "indexes_empty mp \<Longrightarrow> indexes_empty (process_transaction h f now mp)"
  by (auto simp: process_transaction_def update_indexes_id indexes_empty_def Let_def
      split: fetched.splits option.splits)

lemma remove_transaction_indexes:
  "indexes_empty mp \<Longrightarrow> indexes_empty (snd (remove_transaction h mp))"
  by (simp add: remove_transaction_def indexes_empty_def Let_def)

lemma remove_each_indexes:
  "indexes_empty mp \<Longrightarrow> indexes_empty (snd (remove_each hs mp))"
proof (induction hs arbitrary: mp)
  case Nil
  then show ?case by simp
next
  case (Cons h hs)
  obtain e mp' where r: "remove_transaction h mp = (e, mp')"
    by (cases "remove_transaction h mp")
  with remove_transaction_indexes [OF Cons.prems, of h] have "indexes_empty mp'" by simp
  with Cons.IH [of mp'] r show ?case
    by (cases e) simp_all
qed

lemma apply_op_indexes: "indexes_empty mp \<Longrightarrow> indexes_empty (snd (apply_op operation mp))"
  by (cases operation)
    (simp_all add: process_transaction_indexes remove_transaction_indexes
      remove_each_indexes cleanup_old_transactions_def Let_def)

lemma run_ops_indexes: "indexes_empty mp \<Longrightarrow> indexes_empty (snd (run_ops ops mp))"
proof (induction ops arbitrary: mp)
  case Nil
  then show ?case by simp
next
  case (Cons operation ops)
  obtain e mp' where a: "apply_op operation mp = (e, mp')"
    by (cases "apply_op operation mp")
  with apply_op_indexes [OF Cons.prems, of operation] have "indexes_empty mp'" by simp
  then have "indexes_empty (snd (run_ops ops mp'))" by (rule Cons.IH)
  with a show ?case by (auto split: prod.splits)
qed

text \<open>Removing a stored hash deletes the entry and then raises.\<close>

lemma remove_transaction_raises:
  "map_of (pending_txs mp) h \<noteq> None \<Longrightarrow> enable_custom_indexing mp \<Longrightarrow>
     fst (remove_transaction h mp) = Some AttributeError
     \<and> map_of (pending_txs (snd (remove_transaction h mp))) h = None"
  by (simp add: remove_transaction_def Let_def delete_conv)

text \<open>A clean-up that finds an expired entry raises on the first one.\<close>

lemma cleanup_raises:
  assumes "(h, transaction) \<in> set (pending_txs mp)"
    and "t_timestamp transaction
           < now - (case tx_cleanup_threshold mp of None \<Rightarrow> 60 | Some c \<Rightarrow> c)"
    and "enable_custom_indexing mp"
  shows "fst (cleanup_old_transactions now mp) = Some AttributeError"
proof -
  let ?old = "filter (\<lambda>entry. t_timestamp (snd entry)
      < now - (case tx_cleanup_threshold mp of None \<Rightarrow> 60 | Some c \<Rightarrow> c)) (pending_txs mp)"
  from assms(1,2) have "(h, transaction) \<in> set ?old" by simp
  then obtain x xs where old: "?old = x # xs"
    by (cases ?old) auto
  then have "x \<in> set (pending_txs mp)"
    by (metis filter_is_subset list.set_intros(1) subsetD)
  then have "map_of (pending_txs mp) (fst x) \<noteq> None"
    by (metis map_of_eq_None_iff image_eqI)
  with assms(3) have "fst (remove_transaction (fst x) mp) = Some AttributeError"
    by (simp add: remove_transaction_raises)
  then have "fst (remove_each (map fst (x # xs)) mp) = Some AttributeError"
    by (cases "remove_transaction (fst x) mp") simp
  with old show ?thesis
    by (simp add: cleanup_old_transactions_def Let_def)
qed

lemma sample_processed:
  "process_transaction h (Fetched sample_raw) now mp
   = mp\<lparr>pending_txs := AList.update h (sample_tx h now) (pending_txs mp)\<rparr>"
  by (simp add: process_transaction_def update_indexes_id sample_raw_def sample_tx_def
      Let_def)

text \<open>
  Claim C7 fails on the code: clean-up and removal do not complete. A new manager stores
  the hashes 0x01 and 0x02 at the times 0 and 10. The clean-up at the time 100 finds both
  older than 60 seconds; it deletes 0x01 from the main table and then raises
  AttributeError, because the method \<^verbatim>\<open>_remove_from_indexes\<close> that \<^verbatim>\<open>_remove_transaction\<close>
  calls is defined nowhere; the expired 0x02 stays in the table. The next clean-up deletes
  0x02 and raises in the same way. In each state both indices are empty, with or without
  entries in the main table.
\<close>

theorem cleanup_aborts_on_expired_entry:
  "run_ops sample_ops (new_mempool None)
     = ([None, None, Some AttributeError, Some AttributeError], new_mempool None)
   \<and> run_ops (take 3 sample_ops) (new_mempool None)
     = ([None, None, Some AttributeError],
        (new_mempool None)\<lparr>pending_txs := [(''0x02'', sample_tx ''0x02'' 10)]\<rparr>)
   \<and> t_timestamp (sample_tx ''0x02'' 10) < 100 - 60
   \<and> run_ops (take 2 sample_ops) (new_mempool None)
     = ([None, None],
        (new_mempool None)\<lparr>pending_txs :=
           [(''0x01'', sample_tx ''0x01'' 0), (''0x02'', sample_tx ''0x02'' 10)]\<rparr>)
   \<and> remove_transaction ''0x02''
        ((new_mempool None)\<lparr>pending_txs := [(''0x02'', sample_tx ''0x02'' 10)]\<rparr>)
     = (Some AttributeError, new_mempool None)
   \<and> indexes_empty (new_mempool None)"
  by (simp add: sample_ops_def sample_processed new_mempool_def
      cleanup_old_transactions_def remove_transaction_def Let_def sample_tx_def
      indexes_empty_def)

subsection \<open>Rounding is monotone\<close>

lemma bpow_powi: "bpow b e = of_nat b powi e"
  by (simp add: bpow_def power_int_def power_one_over inverse_eq_divide)

lemma bpow_pos: "0 < b \<Longrightarrow> 0 < bpow b e"
  by (simp add: bpow_powi)

lemma bpow_add: "0 < b \<Longrightarrow> bpow b (e + e') = bpow b e * bpow b e'"
  by (simp add: bpow_powi power_int_add)

lemma bpow_mono: "1 < b \<Longrightarrow> e \<le> e' \<Longrightarrow> bpow b e \<le> bpow b e'"
  by (simp add: bpow_powi power_int_increasing)

lemma bpow_nat: "bpow b (int n) = of_nat (b ^ n)"
  by (simp add: bpow_def)

lemma ilog_bounds:
  assumes b: "1 < b" and x: "0 < x"
  shows "bpow b (ilog b x) \<le> x \<and> x < bpow b (ilog b x + 1)"
proof (cases "1 \<le> x")
  case True
  define n where "n = nat \<lfloor>x\<rfloor>"
  have n: "0 < n" using True by (simp add: n_def)
  have "(of_nat n :: rat) = of_int \<lfloor>x\<rfloor>"
    using True by (simp add: n_def)
  then have nx: "of_nat n \<le> x" "x < of_nat n + 1"
    using floor_correct [of x] by simp_all
  from floorlog_bounds [OF n b]
  have fl: "b ^ (floorlog b n - 1) \<le> n" "n < b ^ floorlog b n" by simp_all
  have fpos: "0 < floorlog b n" using n b by (simp add: floorlog_def)
  have e: "ilog b x = int (floorlog b n - 1)"
    using True fpos by (simp add: ilog_def n_def)
  have e1: "ilog b x + 1 = int (floorlog b n)"
    using fpos by (simp add: e)
  have "bpow b (ilog b x) \<le> of_nat n"
    unfolding e bpow_nat using fl(1) by (simp only: of_nat_le_iff)
  moreover have "of_nat n + (1::rat) \<le> bpow b (ilog b x + 1)"
  proof -
    have "n + 1 \<le> b ^ floorlog b n" using fl(2) by simp
    then have "(of_nat (n + 1) :: rat) \<le> of_nat (b ^ floorlog b n)"
      by (simp only: of_nat_le_iff)
    then show ?thesis unfolding e1 bpow_nat by simp
  qed
  ultimately show ?thesis using nx by linarith
next
  case False
  define y where "y = 1 / x"
  define m where "m = nat (\<lceil>y\<rceil> - 1)"
  have y1: "1 < y" using False x by (simp add: y_def)
  have c2: "2 \<le> \<lceil>y\<rceil>" using y1 by (simp add: le_ceiling_iff)
  have m: "0 < m" using c2 by (simp add: m_def)
  have my: "of_nat m < y" "y \<le> of_nat m + 1"
  proof -
    have "of_int (\<lceil>y\<rceil> - 1) < y" by (simp add: ceiling_correct)
    moreover have "(of_nat m :: rat) = of_int (\<lceil>y\<rceil> - 1)"
      using c2 by (simp add: m_def)
    ultimately show "of_nat m < y" by simp
    have "y \<le> of_int \<lceil>y\<rceil>" by simp
    moreover have "(of_nat m :: rat) + 1 = of_int \<lceil>y\<rceil>"
      using c2 by (simp add: m_def)
    ultimately show "y \<le> of_nat m + 1" by simp
  qed
  from floorlog_bounds [OF m b]
  have fl: "b ^ (floorlog b m - 1) \<le> m" "m < b ^ floorlog b m" by simp_all
  define k where "k = floorlog b m"
  have kpos: "0 < k" using m b by (simp add: k_def floorlog_def)
  have e: "ilog b x = - int k"
    using False by (simp add: ilog_def k_def m_def y_def)
  have bp: "(0::rat) < of_nat b" using b by simp
  have "y \<le> of_nat (b ^ k)"
  proof -
    have "m + 1 \<le> b ^ k" using fl(2) by (simp add: k_def)
    then have "(of_nat (m + 1) :: rat) \<le> of_nat (b ^ k)" by (simp only: of_nat_le_iff)
    with my(2) show ?thesis by simp
  qed
  then have "1 / of_nat (b ^ k) \<le> 1 / y"
    using y1 bp by (intro divide_left_mono mult_pos_pos zero_less_power) simp_all
  then have lower: "bpow b (ilog b x) \<le> x"
    using x kpos by (simp add: e bpow_def y_def)
  have "of_nat (b ^ (k - 1)) < y"
  proof -
    have "(of_nat (b ^ (k - 1)) :: rat) \<le> of_nat m"
      using fl(1) by (simp only: of_nat_le_iff k_def)
    then show ?thesis using my(1) by (rule le_less_trans)
  qed
  then have "1 / y < 1 / of_nat (b ^ (k - 1))"
    using y1 bp by (intro divide_strict_left_mono) simp_all
  moreover have "bpow b (ilog b x + 1) = 1 / of_nat (b ^ (k - 1))"
  proof -
    have "ilog b x + 1 = - int (k - 1)" using kpos by (simp add: e)
    then have "bpow b (ilog b x + 1) = bpow b (- int (k - 1))" by (simp only:)
    also have "\<dots> = 1 / of_nat (b ^ (k - 1))"
      by (simp add: bpow_powi power_int_minus inverse_eq_divide)
    finally show ?thesis .
  qed
  ultimately have "x < bpow b (ilog b x + 1)"
    using x by (simp add: y_def)
  with lower show ?thesis by simp
qed

lemma ilog_mono:
  assumes b: "1 < b" and x: "0 < x" and xy: "x \<le> y"
  shows "ilog b x \<le> ilog b y"
proof (rule ccontr)
  assume "\<not> ilog b x \<le> ilog b y"
  then have "ilog b y + 1 \<le> ilog b x" by simp
  then have "bpow b (ilog b y + 1) \<le> bpow b (ilog b x)"
    using b by (rule bpow_mono [rotated])
  moreover have "y < bpow b (ilog b y + 1)"
    using ilog_bounds [OF b, of y] x xy by simp
  moreover have "bpow b (ilog b x) \<le> x"
    using ilog_bounds [OF b x] by simp
  ultimately show False using xy by linarith
qed

lemma round_half_even_of_int: "round_half_even (of_int n) = n"
  by (simp add: round_half_even_def)

lemma round_half_even_mono:
  assumes "x \<le> y"
  shows "round_half_even x \<le> round_half_even y"
proof (cases "\<lfloor>x\<rfloor> = \<lfloor>y\<rfloor>")
  case True
  with assms show ?thesis
    by (auto simp: round_half_even_def Let_def)
next
  case False
  with assms have "\<lfloor>x\<rfloor> + 1 \<le> \<lfloor>y\<rfloor>"
    using floor_mono [OF assms] by linarith
  moreover have "round_half_even x \<le> \<lfloor>x\<rfloor> + 1"
    by (simp add: round_half_even_def Let_def)
  moreover have "\<lfloor>y\<rfloor> \<le> round_half_even y"
    by (simp add: round_half_even_def Let_def)
  ultimately show ?thesis by linarith
qed

lemma bpow_multiple:
  assumes "0 < b" and "e' \<le> e"
  shows "bpow b e = of_int (int (b ^ nat (e - e'))) * bpow b e'"
proof -
  have "bpow b e = bpow b ((e - e') + e')" by simp
  also have "\<dots> = bpow b (e - e') * bpow b e'"
    using assms(1) by (rule bpow_add)
  also have "bpow b (e - e') = of_int (int (b ^ nat (e - e')))"
    using assms(2) by (simp add: bpow_def)
  finally show ?thesis .
qed

lemma round_unit_le:
  assumes "0 < u" and "x \<le> of_int n * u"
  shows "of_int (round_half_even (x / u)) * u \<le> of_int n * u"
proof -
  have "x / u \<le> of_int n" using assms by (simp add: pos_divide_le_eq)
  then have "round_half_even (x / u) \<le> n"
    using round_half_even_mono [of "x / u" "of_int n"] by (simp add: round_half_even_of_int)
  then have "(of_int (round_half_even (x / u)) :: rat) \<le> of_int n" by simp
  then show ?thesis using assms(1) by (simp add: mult_right_mono)
qed

lemma round_unit_ge:
  assumes "0 < u" and "of_int n * u \<le> x"
  shows "of_int n * u \<le> of_int (round_half_even (x / u)) * u"
proof -
  have "of_int n \<le> x / u" using assms by (simp add: pos_le_divide_eq)
  then have "n \<le> round_half_even (x / u)"
    using round_half_even_mono [of "of_int n" "x / u"] by (simp add: round_half_even_of_int)
  then have "(of_int n :: rat) \<le> of_int (round_half_even (x / u))" by simp
  then show ?thesis using assms(1) by (simp add: mult_right_mono)
qed

lemma round_sig_mono_pos:
  assumes b: "1 < b" and p: "0 < p" and x: "0 < x" and xy: "x \<le> y"
  shows "round_sig b p emin x \<le> round_sig b p emin y"
proof -
  define ex where "ex = max (ilog b x - int p + 1) emin"
  define ey where "ey = max (ilog b y - int p + 1) emin"
  have y: "0 < y" using x xy by simp
  have b0: "0 < b" using b by simp
  have rx: "round_sig b p emin x = of_int (round_half_even (x / bpow b ex)) * bpow b ex"
    using x by (simp add: round_sig_def ex_def Let_def)
  have ry: "round_sig b p emin y = of_int (round_half_even (y / bpow b ey)) * bpow b ey"
    using y by (simp add: round_sig_def ey_def Let_def)
  have il: "ilog b x \<le> ilog b y" using b x xy by (rule ilog_mono)
  then have exy: "ex \<le> ey" by (simp add: ex_def ey_def)
  show ?thesis
  proof (cases "ex = ey")
    case True
    have "x / bpow b ey \<le> y / bpow b ey"
      using xy bpow_pos [OF b0, of ey] by (simp add: divide_right_mono)
    then have "round_half_even (x / bpow b ey) \<le> round_half_even (y / bpow b ey)"
      by (rule round_half_even_mono)
    then have "(of_int (round_half_even (x / bpow b ey)) :: rat)
        \<le> of_int (round_half_even (y / bpow b ey))" by simp
    then show ?thesis
      unfolding rx ry True using bpow_pos [OF b0, of ey] by (simp add: mult_right_mono)
  next
    case False
    with exy have lt: "ex < ey" by simp
    then have ey': "ey = ilog b y - int p + 1" by (auto simp: ex_def ey_def max_def split: if_splits)
    have "ilog b x - int p + 1 \<le> ex" by (simp add: ex_def)
    with lt ey' have il1: "ilog b x + 1 \<le> ilog b y" by simp
    define B where "B = bpow b (ilog b y)"
    have eyB: "ey \<le> ilog b y" using p by (simp add: ey')
    have exB: "ex \<le> ilog b y" using lt eyB by simp
    have "x < bpow b (ilog b x + 1)" using ilog_bounds [OF b x] by simp
    also have "\<dots> \<le> B" unfolding B_def using b il1 by (rule bpow_mono)
    finally have xB: "x \<le> B" by simp
    have By: "B \<le> y" unfolding B_def using ilog_bounds [OF b y] by simp
    have Bx: "B = of_int (int (b ^ nat (ilog b y - ex))) * bpow b ex"
      unfolding B_def using b0 exB by (rule bpow_multiple)
    have Byy: "B = of_int (int (b ^ nat (ilog b y - ey))) * bpow b ey"
      unfolding B_def using b0 eyB by (rule bpow_multiple)
    have "round_sig b p emin x \<le> B"
      unfolding rx using round_unit_le [OF bpow_pos [OF b0, of ex], of x] xB Bx by metis
    moreover have "B \<le> round_sig b p emin y"
      unfolding ry using round_unit_ge [OF bpow_pos [OF b0, of ey], of _ y] By Byy by metis
    ultimately show ?thesis by simp
  qed
qed

lemma round_sig_nonneg: "0 < b \<Longrightarrow> 0 \<le> x \<Longrightarrow> 0 \<le> round_sig b p emin x"
proof -
  assume b: "0 < b" and x: "0 \<le> x"
  show ?thesis
  proof (cases "x = 0")
    case True
    then show ?thesis by (simp add: round_sig_def)
  next
    case False
    define u where "u = bpow b (max (ilog b \<bar>x\<bar> - int p + 1) emin)"
    have u: "0 < u" unfolding u_def using b by (rule bpow_pos)
    have "of_int 0 * u \<le> of_int (round_half_even (x / u)) * u"
      using u x by (intro round_unit_ge) simp_all
    then show ?thesis using False by (simp add: round_sig_def Let_def u_def)
  qed
qed

lemma round_sig_mono:
  assumes "1 < b" and "0 < p" and "0 \<le> x" and "x \<le> y"
  shows "round_sig b p emin x \<le> round_sig b p emin y"
proof (cases "x = 0")
  case True
  then show ?thesis
    using assms round_sig_nonneg [of b y p emin] by (simp add: round_sig_def)
next
  case False
  with assms show ?thesis by (intro round_sig_mono_pos) simp_all
qed

subsection \<open>Price impact\<close>

lemmas xfloat_eval = f64_eval xround_def

lemma f64_units:
  "f64 1 = Some 1" "f64 9007199254740992 = Some 9007199254740992"
  "f64 9007199254740994 = Some 9007199254740994"
  by (simp_all add: xfloat_eval)

lemma sum_rounds_down: "xround 9007199254740993 = Fin 9007199254740992"
  by (simp add: xfloat_eval)

lemma sum_rounds_up: "xround 9007199254740995 = Fin 9007199254740996"
  by (simp add: xfloat_eval)

lemma quotient_below_one:
  "xround (4503599627370497 / 4503599627370498)
     = Fin (4503599627370495 / 4503599627370496)"
  by (simp add: xfloat_eval)

lemma xround_1: "xround 1 = Fin 1"
  by (simp add: xfloat_eval)

text \<open>
  The same at the magnitudes of the repository's test: the liquidity \<open>10 ^ 20\<close> wei and
  two amounts of about \<open>10 ^ 18\<close> wei that are 128 wei apart. The first sum is rounded
  down by 8192, the second up by 8064.
\<close>

lemma f64_wei_amounts:
  "f64 1000000000000008192 = Some 1000000000000008192"
  "f64 1000000000000008320 = Some 1000000000000008320"
  "f64 100000000000000000000 = Some 100000000000000000000"
  by (simp_all add: xfloat_eval)

lemma wei_sum_rounds_down: "xround 101000000000000008192 = Fin 101000000000000000000"
  by (simp add: xfloat_eval)

lemma wei_sum_rounds_up: "xround 101000000000000008320 = Fin 101000000000000016384"
  by (simp add: xfloat_eval)

lemma wei_quotients:
  "xround (122070312500001 / 12329101562500000)
     = Fin (2853766100512021 / 288230376151711744)"
  "xround (7812500000000065 / 789062500000000128)
     = Fin (5707532201024041 / 576460752303423488)"
  by (simp_all add: xfloat_eval)

text \<open>
  Claim C9 fails on the code. The impact is computed in binary64 as
  \<^verbatim>\<open>amounts / (amounts + liquidities)\<close>, and the sum is rounded before the division.
  With the liquidity 1, the amounts \<open>2 ^ 53\<close> and \<open>2 ^ 53 + 2\<close> give the impacts 1 and
  \<open>1 - 2 ^ -52\<close>: the sum \<open>2 ^ 53 + 1\<close> rounds down to \<open>2 ^ 53\<close>, while \<open>2 ^ 53 + 3\<close> rounds
  up to \<open>2 ^ 53 + 4\<close>. With the liquidity \<open>10 ^ 20\<close>, the amounts 1000000000000008192 and
  1000000000000008320 give 0.009900990099009983 and then 0.009900990099009981. The
  repository's test of the routine asserts that a higher amount has a higher impact.
\<close>

theorem price_impact_decreases:
  "batch_price_impact [2 ^ 53, 2 ^ 53 + 2] [1, 1]
     = Inr [Fin 1, Fin (4503599627370495 / 4503599627370496)]
   \<and> (2 ^ 53 :: rat) \<le> 2 ^ 53 + 2
   \<and> (4503599627370495 / 4503599627370496 :: rat) < 1
   \<and> batch_price_impact [1000000000000008192, 1000000000000008320]
        [100000000000000000000, 100000000000000000000]
     = Inr [Fin (2853766100512021 / 288230376151711744),
            Fin (5707532201024041 / 576460752303423488)]
   \<and> (1000000000000008192 :: rat) \<le> 1000000000000008320
   \<and> (5707532201024041 / 576460752303423488 :: rat)
       < 2853766100512021 / 288230376151711744"
  by (simp add: batch_price_impact_def price_impact_arrays_def broadcast2_def f64_units
      sum_rounds_down sum_rounds_up xround_1 quotient_below_one f64_wei_amounts
      wei_sum_rounds_down wei_sum_rounds_up wei_quotients)

lemma xround_Fin: "xround x = Fin r \<Longrightarrow> r = round_sig 2 53 (- 1074) x"
  by (simp add: xround_def Let_def split: if_splits)

lemma f64_Some: "f64 x = Some r \<Longrightarrow> r = round_sig 2 53 (- 1074) x"
  by (simp add: f64_def Let_def split: if_splits)

lemma round_sig_one: "round_sig 2 53 (- 1074) 1 = 1"
  by (simp add: round_eval)

lemma xround_unit_interval:
  assumes "0 \<le> x" and "x \<le> 1"
  shows "xround x = Fin (round_sig 2 53 (- 1074) x)"
proof -
  have "0 \<le> round_sig 2 53 (- 1074) x"
    using assms(1) by (intro round_sig_nonneg) simp_all
  moreover have "round_sig 2 53 (- 1074) x \<le> round_sig 2 53 (- 1074) 1"
    using assms by (intro round_sig_mono) simp_all
  ultimately have "\<bar>round_sig 2 53 (- 1074) x\<bar> \<le> 1"
    by (simp add: round_sig_one)
  moreover have "(1::rat) < 2 ^ 1024" by simp
  ultimately have "\<bar>round_sig 2 53 (- 1074) x\<bar> < 2 ^ 1024" by (rule le_less_trans)
  then show ?thesis by (simp add: xround_def Let_def)
qed

lemma impact_ratio_mono:
  fixes a a' l :: rat
  assumes "0 \<le> a" and "a \<le> a'" and "0 < l"
  shows "a / (a + l) \<le> a' / (a' + l)"
proof -
  have "a * (a' + l) \<le> a' * (a + l)"
    using assms by (simp add: algebra_simps)
  then show ?thesis
    using assms by (simp add: frac_le_eq divide_le_0_iff algebra_simps)
qed

text \<open>
  Where the routine is monotone. For a fixed positive liquidity and amounts
  \<open>0 \<le> a \<le> a'\<close>, all of them binary64 numbers, the computed impact at \<open>a\<close> is at most the
  computed impact at \<open>a'\<close> whenever the sum at \<open>a\<close> is not rounded down and the sum at
  \<open>a'\<close> is not rounded up; the two runs above have both roundings.
\<close>

lemma price_impact_monotone_without_adverse_rounding:
  assumes "0 \<le> a" and "a \<le> a'" and "0 < l"
    and "f64 a = Some a" and "f64 a' = Some a'" and "f64 l = Some l"
    and "xround (a + l) = Fin s" and "a + l \<le> s"
    and "xround (a' + l) = Fin s'" and "s' \<le> a' + l"
  shows "\<exists>r r'. batch_price_impact [a, a'] [l, l] = Inr [Fin r, Fin r'] \<and> r \<le> r'"
proof -
  let ?q = "a / s" and ?q' = "a' / s'"
  have a': "0 \<le> a'" using assms(1,2) by simp
  have s: "0 < s" "a \<le> s" using assms(1,3,8) by simp_all
  have "round_sig 2 53 (- 1074) l \<le> round_sig 2 53 (- 1074) (a' + l)"
    using assms(3) a' by (intro round_sig_mono) simp_all
  then have ls': "l \<le> s'"
    using f64_Some [OF assms(6)] xround_Fin [OF assms(9)] by simp
  have "round_sig 2 53 (- 1074) a' \<le> round_sig 2 53 (- 1074) (a' + l)"
    using assms(3) a' by (intro round_sig_mono) simp_all
  then have as': "a' \<le> s'"
    using f64_Some [OF assms(5)] xround_Fin [OF assms(9)] by simp
  have s': "0 < s'" using ls' assms(3) by simp
  have q: "0 \<le> ?q" "?q \<le> 1" "0 \<le> ?q'" "?q' \<le> 1"
    using assms(1) a' s s' as' by (simp_all add: divide_le_eq)
  have "?q \<le> a / (a + l)"
    using assms(1,3,8) by (intro divide_left_mono) (simp_all add: mult_pos_pos)
  also have "\<dots> \<le> a' / (a' + l)"
    using assms(1-3) by (rule impact_ratio_mono)
  also have "\<dots> \<le> ?q'"
    using a' s' assms(3,10) by (intro divide_left_mono) (simp_all add: mult_pos_pos)
  finally have le: "?q \<le> ?q'" .
  have "batch_price_impact [a, a'] [l, l] = Inr [xround ?q, xround ?q']"
    using assms(4-7,9) s(1) s'
    by (simp add: batch_price_impact_def price_impact_arrays_def broadcast2_def)
  moreover have "round_sig 2 53 (- 1074) ?q \<le> round_sig 2 53 (- 1074) ?q'"
    using q(1) le by (intro round_sig_mono) simp_all
  ultimately show ?thesis
    using xround_unit_interval [OF q(1,2)] xround_unit_interval [OF q(3,4)] by simp
qed

subsection \<open>Gas estimate of the just-in-time strategy\<close>







subsection \<open>Sandwich bundles\<close>

lemma float_literals:
  "float_lit (1 / 10) = 3602879701896397 / 36028797018963968"
  "float_lit (51 / 50) = 2296835809958953 / 2251799813685248"
  by (simp_all add: xfloat_eval)









text \<open>The opportunity of the repository's test.\<close>

lemma f64_test_values:
  "f64 1000000000000000000 = Some 1000000000000000000"
  "f64 100000000000000000000 = Some 100000000000000000000"
  "f64 50000000000 = Some 50000000000"
  "f64 100000000000000000 = Some 100000000000000000"
  by (simp_all add: xfloat_eval)

lemma xround_test_values:
  "xround (13743895347200000762939453125 / 137438953472) = Fin 100000000000000000"
  "xround 100100000000000000000 = Fin 100100000000000000000"
  "xround (1 / 1001) = Fin (1151769734871975 / 1152921504606846976)"
  "xround (4393652858245754241943359375 / 4398046511104) = Fin 999000999000999"
  "xround 100000000000 = Fin 100000000000"
  "xround 998900999000999 = Fin 998900999000999"
  by (simp_all add: xfloat_eval)

lemma back_product:
  "f64 (1752346656768000030517578125 / 17179869184) = Some 102000000000000000"
  by (simp add: xfloat_eval)

lemma test_optimization:
  "batch_sandwich_optimization [1000000000000000000] [100000000000000000000] [50000000000]
     = Inr ([Fin 100000000000000000], [Fin 998900999000999])"
  by (simp add: batch_sandwich_optimization_def price_impact_arrays_def broadcast2_def
      xsub_def f64_test_values float_literals xround_test_values Let_def)

lemma test_analysis:
  "analyze_opportunity test_target test_pool (Some 50000000000) = Some test_params"
  by (simp add: analyze_opportunity_def test_target_def test_pool_def test_params_def
      get_pool_liquidity_def py_float_def f64_test_values test_optimization
      int_times_float_def fmul_def float_literals back_product py_int_def Let_def)







end
